theory Spec2Isabelle
  imports Complex_Main "HOL-Library.AList" "HOL-Library.Log_Nat"
begin

section \<open>JavaScript numbers and property reads\<close>

text \<open>
  A JavaScript number is a finite value, one of the two infinities, or NaN. The arithmetic
  operators are modelled exactly on finite values: the rounding of a sum or difference of
  doubles is not modelled (model and doubles agree wherever every value involved is an
  integer below \<open>2^53\<close> in magnitude). Reading a decimal literal does round, see
  \<open>to_double\<close> below. Negative zero is identified with zero (no operation of
  \<^verbatim>\<open>dimensions.js\<close> tells them apart).
\<close>

datatype jsnum = NaN | NegInf | Fin real | PosInf

text \<open>
  The Number value of a natural number, which is what reading a decimal literal without
  fraction or exponent yields: the number itself below \<open>2^53\<close>; beyond, the nearest double
  (a significand of 53 bits, a tie going to the even significand), and \<open>+\<infinity>\<close> when that
  rounding reaches \<open>2^1024\<close>. (ECMAScript lets an engine round a literal of more than 20
  significant digits from its first 20 digits; the properties proved below use only that
  the value is exact below \<open>2^53\<close>, that it is never negative or NaN, and that it is zero
  for zero only.)
\<close>

definition to_double :: "nat \<Rightarrow> jsnum" where
  "to_double n =
     (if n < 2 ^ 53 then Fin (real n)
      else
        (let e = floorlog 2 n - 53;
             q = n div 2 ^ e;
             r = n mod 2 ^ e;
             m = (if 2 ^ e < 2 * r \<or> (2 * r = 2 ^ e \<and> odd q) then q + 1 else q)
         in if 2 ^ 1024 \<le> m * 2 ^ e then PosInf else Fin (real (m * 2 ^ e))))"

text \<open>
  \<^verbatim>\<open>SizeRange\<close>, \<^verbatim>\<open>Size\<close> and the fields of \<^verbatim>\<open>Metrics\<close> that the range utilities read
  are annotated \<^verbatim>\<open>number\<close>: such an object is an association list from property names to
  numbers, in creation order. Reading a property that is not there yields \<^verbatim>\<open>undefined\<close>,
  which is \<open>None\<close>.
\<close>

type_synonym numval = "jsnum option"
type_synonym numobj = "(string \<times> jsnum) list"

text \<open>ToBoolean: \<^verbatim>\<open>undefined\<close>, NaN and zero are falsy, every other number is truthy.\<close>

fun truthy :: "numval \<Rightarrow> bool" where
  "truthy None = False"
| "truthy (Some NaN) = False"
| "truthy (Some (Fin x)) = (x \<noteq> 0)"
| "truthy (Some NegInf) = True"
| "truthy (Some PosInf) = True"

text \<open>ToNumber of \<^verbatim>\<open>undefined\<close> is NaN.\<close>

fun ToNumber :: "numval \<Rightarrow> jsnum" where
  "ToNumber None = NaN"
| "ToNumber (Some n) = n"

text \<open>\<^verbatim>\<open>x || d\<close> where \<open>d\<close> is a number: \<open>x\<close> when it is truthy, \<open>d\<close> otherwise.\<close>

fun or_else :: "numval \<Rightarrow> jsnum \<Rightarrow> jsnum" where
  "or_else None d = d"
| "or_else (Some n) d = (if truthy (Some n) then n else d)"

fun num_add :: "jsnum \<Rightarrow> jsnum \<Rightarrow> jsnum" where
  "num_add NaN _ = NaN"
| "num_add _ NaN = NaN"
| "num_add PosInf NegInf = NaN"
| "num_add NegInf PosInf = NaN"
| "num_add PosInf _ = PosInf"
| "num_add _ PosInf = PosInf"
| "num_add NegInf _ = NegInf"
| "num_add _ NegInf = NegInf"
| "num_add (Fin x) (Fin y) = Fin (x + y)"

fun num_neg :: "jsnum \<Rightarrow> jsnum" where
  "num_neg NaN = NaN"
| "num_neg NegInf = PosInf"
| "num_neg PosInf = NegInf"
| "num_neg (Fin x) = Fin (- x)"

text \<open>\<^verbatim>\<open>x - y\<close> is \<^verbatim>\<open>x + (-y)\<close> in IEEE arithmetic.\<close>

definition num_sub :: "jsnum \<Rightarrow> jsnum \<Rightarrow> jsnum" where
  "num_sub x y = num_add x (num_neg y)"

text \<open>\<^verbatim>\<open>x <= y\<close> on numbers: false as soon as an operand is NaN.\<close>

fun num_le :: "jsnum \<Rightarrow> jsnum \<Rightarrow> bool" where
  "num_le NaN _ = False"
| "num_le _ NaN = False"
| "num_le NegInf _ = True"
| "num_le _ PosInf = True"
| "num_le PosInf _ = False"
| "num_le _ NegInf = False"
| "num_le (Fin x) (Fin y) = (x \<le> y)"

text \<open>The relational operators convert \<^verbatim>\<open>undefined\<close> to NaN first.\<close>

definition js_le :: "numval \<Rightarrow> numval \<Rightarrow> bool" where
  "js_le x y = num_le (ToNumber x) (ToNumber y)"

definition js_ge :: "numval \<Rightarrow> numval \<Rightarrow> bool" where
  "js_ge x y = num_le (ToNumber y) (ToNumber x)"

text \<open>\<^verbatim>\<open>Math.max\<close> and \<^verbatim>\<open>Math.min\<close> of two numbers: NaN as soon as an argument is NaN.\<close>

fun Math_max :: "jsnum \<Rightarrow> jsnum \<Rightarrow> jsnum" where
  "Math_max NaN _ = NaN"
| "Math_max _ NaN = NaN"
| "Math_max x y = (if num_le x y then y else x)"

fun Math_min :: "jsnum \<Rightarrow> jsnum \<Rightarrow> jsnum" where
  "Math_min NaN _ = NaN"
| "Math_min _ NaN = NaN"
| "Math_min x y = (if num_le x y then x else y)"

section \<open>Range utilities\<close>

text \<open>
  \<^verbatim>\<open>treesaver.dimensions.inSizeRange(range, size)\<close>. The range may be \<^verbatim>\<open>null\<close> or
  \<^verbatim>\<open>undefined\<close> (\<open>None\<close>); the size is an object with the properties \<^verbatim>\<open>w\<close> and \<^verbatim>\<open>h\<close>.
\<close>

definition inSizeRange :: "numobj option \<Rightarrow> numobj \<Rightarrow> bool" where
  "inSizeRange rng sz =
     (case rng of
        None \<Rightarrow> False
      | Some r \<Rightarrow>
          js_ge (map_of sz ''w'') (map_of r ''minW'') \<and>
          js_ge (map_of sz ''h'') (map_of r ''minH'') \<and>
          (if truthy (map_of r ''maxW'') then js_le (map_of sz ''w'') (map_of r ''maxW'')
           else True) \<and>
          (if truthy (map_of r ''maxH'') then js_le (map_of sz ''h'') (map_of r ''maxH'')
           else True))"

text \<open>
  The two local variables of \<^verbatim>\<open>mergeSizeRange\<close>:
  \<^verbatim>\<open>outer ? b.bpHeight || (b.outerHeight ? b.outerHeight - b.height : 0) : 0\<close>
  and the same for the width.
\<close>

definition merge_bpHeight :: "numobj \<Rightarrow> bool \<Rightarrow> jsnum" where
  "merge_bpHeight b outer =
     (if outer
      then or_else (map_of b ''bpHeight'')
             (if truthy (map_of b ''outerHeight'')
              then num_sub (ToNumber (map_of b ''outerHeight'')) (ToNumber (map_of b ''height''))
              else Fin 0)
      else Fin 0)"

definition merge_bpWidth :: "numobj \<Rightarrow> bool \<Rightarrow> jsnum" where
  "merge_bpWidth b outer =
     (if outer
      then or_else (map_of b ''bpWidth'')
             (if truthy (map_of b ''outerWidth'')
              then num_sub (ToNumber (map_of b ''outerWidth'')) (ToNumber (map_of b ''width''))
              else Fin 0)
      else Fin 0)"

text \<open>
  \<^verbatim>\<open>treesaver.dimensions.mergeSizeRange(a, b, outer)\<close>; \<^verbatim>\<open>a = a || {}\<close> and
  \<^verbatim>\<open>b = b || {}\<close> replace an absent argument by the empty object. The prototypes of the
  arguments define none of the properties read here, so a read is a lookup among the
  object's own properties.
\<close>

definition mergeSizeRange :: "numobj option \<Rightarrow> numobj option \<Rightarrow> bool \<Rightarrow> numobj" where
  "mergeSizeRange a0 b0 outer =
     (let a = (case a0 of None \<Rightarrow> [] | Some x \<Rightarrow> x);
          b = (case b0 of None \<Rightarrow> [] | Some x \<Rightarrow> x);
          bpHeight = merge_bpHeight b outer;
          bpWidth = merge_bpWidth b outer
      in [(''width'', Math_max (or_else (map_of a ''width'') (Fin 0))
                        (or_else (Some (num_add (ToNumber (map_of b ''width'')) bpWidth)) (Fin 0))),
          (''height'', Math_max (or_else (map_of a ''height'') (Fin 0))
                        (or_else (Some (num_add (ToNumber (map_of b ''height'')) bpHeight)) (Fin 0))),
          (''maxW'', Math_min (or_else (map_of a ''maxW'') PosInf)
                        (or_else (Some (num_add (ToNumber (map_of b ''maxW'')) bpWidth)) PosInf)),
          (''maxH'', Math_min (or_else (map_of a ''maxH'') PosInf)
                        (or_else (Some (num_add (ToNumber (map_of b ''maxH'')) bpHeight)) PosInf))])"

section \<open>Pixel conversion\<close>

text \<open>
  \<^verbatim>\<open>treesaver.dimensions.pixel = /^-?\d+(?:px)?$/i\<close>. The matcher below is the regular
  expression read from left to right: an optional minus sign, the longest run of decimal
  digits (at least one), and then either the end of the input or \<^verbatim>\<open>px\<close> in any letter case
  followed by the end of the input. Backtracking cannot find another match: a digit given
  back by \<^verbatim>\<open>\d+\<close> is matched by nothing that follows.
\<close>

definition is_digit :: "char \<Rightarrow> bool" where
  "is_digit c = (c \<in> set ''0123456789'')"

definition pixel_test :: "string \<Rightarrow> bool" where
  "pixel_test s =
     (let s1 = (case s of [] \<Rightarrow> s | c # r \<Rightarrow> if c = CHR ''-'' then r else s);
          ds = takeWhile is_digit s1;
          rest = dropWhile is_digit s1
      in ds \<noteq> [] \<and> (rest = [] \<or> rest \<in> set [''px'', ''pX'', ''Px'', ''PX'']))"

text \<open>The value of a decimal digit: its position among the ten digits.\<close>

definition digit_value :: "char \<Rightarrow> nat" where
  "digit_value c = length (takeWhile (\<lambda>d. d \<noteq> c) ''0123456789'')"

text \<open>The number a string of decimal digits denotes.\<close>

fun decimal :: "nat \<Rightarrow> string \<Rightarrow> nat" where
  "decimal acc [] = acc"
| "decimal acc (c # cs) = decimal (10 * acc + digit_value c) cs"

text \<open>
  \<^verbatim>\<open>treesaver.dimensions.number = /^-?\d/\<close>: an optional minus sign and a digit, at the
  start of the string.
\<close>

definition number_test :: "string \<Rightarrow> bool" where
  "number_test s =
     (let s1 = (case s of [] \<Rightarrow> s | c # r \<Rightarrow> if c = CHR ''-'' then r else s)
      in case s1 of [] \<Rightarrow> False | d # r \<Rightarrow> is_digit d)"

text \<open>
  \<^verbatim>\<open>parseFloat\<close> on a string that starts with an optional sign and decimal digits: the
  Number value of the longest such prefix, NaN when there is no digit. \<^verbatim>\<open>toPixels\<close> applies
  it only to strings that \<^verbatim>\<open>pixel\<close> accepts, where the prefix is followed by nothing or by
  \<^verbatim>\<open>px\<close>; the white space, fraction, exponent and \<^verbatim>\<open>Infinity\<close> that \<^verbatim>\<open>parseFloat\<close> also
  reads cannot occur there and are not modelled.
\<close>

definition parseFloat :: "string \<Rightarrow> jsnum" where
  "parseFloat s =
     (let neg = (case s of [] \<Rightarrow> False | c # r \<Rightarrow> c = CHR ''-'');
          s1 = (case s of [] \<Rightarrow> s | c # r \<Rightarrow> if c = CHR ''-'' \<or> c = CHR ''+'' then r else s);
          ds = takeWhile is_digit s1
      in if ds = [] then NaN
         else if neg then num_neg (to_double (decimal 0 ds)) else to_double (decimal 0 ds))"

text \<open>
  The host decides which definitions of \<^verbatim>\<open>getStyleObject\<close> and \<^verbatim>\<open>toPixels\<close> are installed:
  the replacements of lines 107 to 136 when \<^verbatim>\<open>SUPPORT_IE\<close> is set and the document has no
  \<^verbatim>\<open>getComputedStyle\<close> (\<open>MSIE\<close>), the first definitions otherwise (\<open>Standard\<close>).
\<close>

datatype host = Standard | MSIE

text \<open>
  An element, as far as \<^verbatim>\<open>dimensions.js\<close> reads it: its computed style and, in MSIE, its
  current style (a property of the style object is a string, or \<^verbatim>\<open>undefined\<close> when the
  engine does not report it); its rendered box; and, for MSIE, the measurement the
  replacement of \<^verbatim>\<open>toPixels\<close> takes: the value of \<^verbatim>\<open>el.style.pixelLeft\<close> once
  \<^verbatim>\<open>el.style.left\<close> is the given string.
\<close>

record element =
  computedStyle :: "string \<Rightarrow> string option"
  currentStyle :: "string \<Rightarrow> string option"
  pixelLeft :: "string \<Rightarrow> jsnum"
  offsetWidth :: jsnum
  offsetHeight :: jsnum

text \<open>
  \<^verbatim>\<open>treesaver.dimensions.toPixels(el, val)\<close> as first defined (lines 87 to 93); \<open>None\<close> is
  \<^verbatim>\<open>null\<close>. The empty string is falsy, so \<^verbatim>\<open>val && ...\<close> rejects it before the test.
\<close>

definition toPixels_standard :: "element \<Rightarrow> string option \<Rightarrow> jsnum option" where
  "toPixels_standard el val =
     (case val of
        None \<Rightarrow> None
      | Some s \<Rightarrow> if s \<noteq> [] \<and> pixel_test s then Some (parseFloat s) else None)"

text \<open>
  The replacement (lines 118 to 135). For a string that is no pixel value but starts like a
  number it sets \<^verbatim>\<open>el.style.left\<close> to the string, reads \<^verbatim>\<open>el.style.pixelLeft\<close> and puts
  \<^verbatim>\<open>el.style.left\<close> and \<^verbatim>\<open>el.runtimeStyle.left\<close> back as they were: the element is left
  unchanged, and the value read is returned.
\<close>

definition toPixels_msie :: "element \<Rightarrow> string option \<Rightarrow> jsnum option" where
  "toPixels_msie el val =
     (case val of
        None \<Rightarrow> None
      | Some s \<Rightarrow>
          if s \<noteq> [] \<and> pixel_test s then Some (parseFloat s)
          else if s \<noteq> [] \<and> number_test s then Some (pixelLeft el s)
          else None)"

definition toPixels :: "host \<Rightarrow> element \<Rightarrow> string option \<Rightarrow> jsnum option" where
  "toPixels host el val =
     (case host of Standard \<Rightarrow> toPixels_standard el val | MSIE \<Rightarrow> toPixels_msie el val)"

text \<open>
  \<^verbatim>\<open>treesaver.dimensions.getStyleObject(el)\<close>: \<^verbatim>\<open>getComputedStyle(el, null)\<close>, replaced by
  \<^verbatim>\<open>el.currentStyle\<close> in MSIE.
\<close>

definition getStyleObject :: "host \<Rightarrow> element \<Rightarrow> string \<Rightarrow> string option" where
  "getStyleObject host el =
     (case host of Standard \<Rightarrow> computedStyle el | MSIE \<Rightarrow> currentStyle el)"

section \<open>Rounding\<close>

fun num_ceil :: "jsnum \<Rightarrow> jsnum" where
  "num_ceil (Fin x) = Fin (of_int \<lceil>x\<rceil>)"
| "num_ceil x = x"

text \<open>
  \<^verbatim>\<open>x % y\<close>: NaN when an operand is NaN, the dividend is infinite or the divisor is zero; the
  dividend when the divisor is infinite; otherwise the remainder of the division truncated
  towards zero, which has the sign of the dividend.
\<close>

definition truncate :: "real \<Rightarrow> int" where
  "truncate q = (if 0 \<le> q then \<lfloor>q\<rfloor> else \<lceil>q\<rceil>)"

fun num_mod :: "jsnum \<Rightarrow> jsnum \<Rightarrow> jsnum" where
  "num_mod (Fin x) (Fin y) = (if y = 0 then NaN else Fin (x - y * of_int (truncate (x / y))))"
| "num_mod (Fin x) PosInf = Fin x"
| "num_mod (Fin x) NegInf = Fin x"
| "num_mod _ _ = NaN"

text \<open>\<^verbatim>\<open>treesaver.dimensions.roundUp(number, base)\<close>.\<close>

definition roundUp :: "jsnum \<Rightarrow> jsnum \<Rightarrow> jsnum" where
  "roundUp number base = num_sub (num_add (num_ceil number) base) (num_mod number base)"

section \<open>Metrics\<close>

text \<open>
  A property value of a \<^verbatim>\<open>Metrics\<close> object. \<open>Ref\<close> is a reference to an object (a function
  included), compared by identity.
\<close>

datatype val = Undefined | Null | Bool bool | Num jsnum | Str string | Ref nat

text \<open>An object is the list of its own properties, in creation order.\<close>

type_synonym obj = "(string \<times> val) list"

definition style_val :: "string option \<Rightarrow> val" where
  "style_val v = (case v of None \<Rightarrow> Undefined | Some s \<Rightarrow> Str s)"

text \<open>\<^verbatim>\<open>(!tmp || tmp === -1) ? Infinity : tmp\<close>.\<close>

definition max_or_Infinity :: "jsnum option \<Rightarrow> jsnum" where
  "max_or_Infinity tmp =
     (case tmp of
        None \<Rightarrow> PosInf
      | Some n \<Rightarrow> if \<not> truthy (Some n) \<or> n = Fin (- 1) then PosInf else n)"

text \<open>\<^verbatim>\<open>toPixels(el, style.lineHeight) || null\<close>.\<close>

definition or_null :: "jsnum option \<Rightarrow> val" where
  "or_null v = (case v of None \<Rightarrow> Null | Some n \<Rightarrow> if truthy (Some n) then Num n else Null)"

text \<open>
  \<^verbatim>\<open>new treesaver.dimensions.Metrics(el)\<close>: the own properties of the object constructed.
  Without an element the constructor returns at once and the object has no own property.
\<close>

definition Metrics :: "host \<Rightarrow> element option \<Rightarrow> obj" where
  "Metrics host el0 =
     (case el0 of
        None \<Rightarrow> []
      | Some el \<Rightarrow>
         (let style = getStyleObject host el;
              marginTop = or_else (toPixels host el (style ''marginTop'')) (Fin 0);
              marginBottom = or_else (toPixels host el (style ''marginBottom'')) (Fin 0);
              marginLeft = or_else (toPixels host el (style ''marginLeft'')) (Fin 0);
              marginRight = or_else (toPixels host el (style ''marginRight'')) (Fin 0);
              marginHeight = num_add marginTop marginBottom;
              marginWidth = num_add marginLeft marginRight;
              borderTop = or_else (toPixels host el (style ''borderTopWidth'')) (Fin 0);
              borderBottom = or_else (toPixels host el (style ''borderBottomWidth'')) (Fin 0);
              borderLeft = or_else (toPixels host el (style ''borderLeftWidth'')) (Fin 0);
              borderRight = or_else (toPixels host el (style ''borderRightWidth'')) (Fin 0);
              paddingTop = or_else (toPixels host el (style ''paddingTop'')) (Fin 0);
              paddingBottom = or_else (toPixels host el (style ''paddingBottom'')) (Fin 0);
              paddingLeft = or_else (toPixels host el (style ''paddingLeft'')) (Fin 0);
              paddingRight = or_else (toPixels host el (style ''paddingRight'')) (Fin 0);
              bpTop = num_add borderTop paddingTop;
              bpBottom = num_add borderBottom paddingBottom;
              bpHeight = num_add bpTop bpBottom;
              bpLeft = num_add borderLeft paddingLeft;
              bpRight = num_add borderRight paddingRight;
              bpWidth = num_add bpLeft bpRight;
              outerW = offsetWidth el;
              outerH = offsetHeight el;
              width = num_sub outerW bpWidth;
              height = num_sub outerH bpHeight;
              minW = or_else (toPixels host el (style ''minWidth'')) (Fin 0);
              minH = or_else (toPixels host el (style ''minHeight'')) (Fin 0);
              maxW = max_or_Infinity (toPixels host el (style ''maxWidth''));
              maxH = max_or_Infinity (toPixels host el (style ''maxHeight''));
              lineHeight = or_null (toPixels host el (style ''lineHeight''))
          in [(''display'', style_val (style ''display'')),
              (''position'', style_val (style ''position'')),
              (''marginTop'', Num marginTop), (''marginBottom'', Num marginBottom),
              (''marginLeft'', Num marginLeft), (''marginRight'', Num marginRight),
              (''marginHeight'', Num marginHeight), (''marginWidth'', Num marginWidth),
              (''borderTop'', Num borderTop), (''borderBottom'', Num borderBottom),
              (''borderLeft'', Num borderLeft), (''borderRight'', Num borderRight),
              (''paddingTop'', Num paddingTop), (''paddingBottom'', Num paddingBottom),
              (''paddingLeft'', Num paddingLeft), (''paddingRight'', Num paddingRight),
              (''bpTop'', Num bpTop), (''bpBottom'', Num bpBottom), (''bpHeight'', Num bpHeight),
              (''bpLeft'', Num bpLeft), (''bpRight'', Num bpRight), (''bpWidth'', Num bpWidth),
              (''outerW'', Num outerW), (''outerH'', Num outerH),
              (''width'', Num width), (''height'', Num height),
              (''minW'', Num minW), (''minH'', Num minH),
              (''maxW'', Num maxW), (''maxH'', Num maxH),
              (''lineHeight'', lineHeight)]))"

text \<open>
  The properties of an object that hold numbers: what \<^verbatim>\<open>mergeSizeRange\<close> and
  \<^verbatim>\<open>inSizeRange\<close> receive when they are handed a \<^verbatim>\<open>Metrics\<close> object (they read numeric
  properties only; \<^verbatim>\<open>display\<close>, \<^verbatim>\<open>position\<close> and a \<^verbatim>\<open>null\<close> line height are not among
  them).
\<close>

fun num_fields :: "obj \<Rightarrow> numobj" where
  "num_fields [] = []"
| "num_fields ((k, Num n) # ps) = (k, n) # num_fields ps"
| "num_fields (_ # ps) = num_fields ps"

section \<open>Copying a Metrics object\<close>

text \<open>
  The prototype chain of a \<^verbatim>\<open>Metrics\<close> object (\<^verbatim>\<open>Metrics.prototype\<close>, which holds
  \<^verbatim>\<open>clone\<close> and, in a debug build, \<^verbatim>\<open>toString\<close>; then \<^verbatim>\<open>Object.prototype\<close>) is a parameter:
  the inherited properties with their values and whether \<^verbatim>\<open>for ... in\<close> enumerates them.
\<close>

type_synonym proto = "(string \<times> val \<times> bool) list"

definition proto_get :: "proto \<Rightarrow> string \<Rightarrow> val" where
  "proto_get P k = (case map_of P k of None \<Rightarrow> Undefined | Some (v, e) \<Rightarrow> v)"

definition enumerable :: "proto \<Rightarrow> string \<Rightarrow> bool" where
  "enumerable P k = (case map_of P k of None \<Rightarrow> False | Some (v, e) \<Rightarrow> e)"

text \<open>A property read \<^verbatim>\<open>o[k]\<close>: an own property first, then the prototype chain.\<close>

definition get_prop :: "proto \<Rightarrow> obj \<Rightarrow> string \<Rightarrow> val" where
  "get_prop P ob k = (case map_of ob k of Some v \<Rightarrow> v | None \<Rightarrow> proto_get P k)"

text \<open>
  The keys \<^verbatim>\<open>for (key in this)\<close> visits: the own properties in creation order, then the
  enumerable inherited ones that no own property shadows.
\<close>

definition for_in_keys :: "proto \<Rightarrow> obj \<Rightarrow> string list" where
  "for_in_keys P ob =
     map fst ob @ filter (\<lambda>k. enumerable P k \<and> k \<notin> set (map fst ob)) (map fst P)"

text \<open>\<^verbatim>\<open>x !== y\<close>: values differ, or both are NaN.\<close>

definition strict_neq :: "val \<Rightarrow> val \<Rightarrow> bool" where
  "strict_neq x y = (x \<noteq> y \<or> x = Num NaN)"

text \<open>
  Objects live in a heap, a list indexed by address; \<^verbatim>\<open>new\<close> appends. An assignment
  \<^verbatim>\<open>o[k] = v\<close> replaces the own property \<open>k\<close> of the object at \<open>o\<close>, or adds it after the
  others.
\<close>

type_synonym heap = "obj list"

definition new_Metrics :: "host \<Rightarrow> heap \<Rightarrow> element option \<Rightarrow> nat \<times> heap" where
  "new_Metrics host h el = (length h, h @ [Metrics host el])"

definition set_prop :: "heap \<Rightarrow> nat \<Rightarrow> string \<Rightarrow> val \<Rightarrow> heap" where
  "set_prop h a k v = h[a := AList.update k v (h ! a)]"

text \<open>The body of the loop of \<^verbatim>\<open>clone\<close>, over the keys still to visit.\<close>

fun clone_loop :: "proto \<Rightarrow> heap \<Rightarrow> nat \<Rightarrow> nat \<Rightarrow> string list \<Rightarrow> heap" where
  "clone_loop P h this copy [] = h"
| "clone_loop P h this copy (key # keys) =
     clone_loop P
       (if strict_neq (get_prop P (h ! copy) key) (get_prop P (h ! this) key)
        then set_prop h copy key (get_prop P (h ! this) key)
        else h)
       this copy keys"

text \<open>
  \<^verbatim>\<open>treesaver.dimensions.Metrics.prototype.clone\<close>, called on the object at address
  \<open>this\<close>: the address of the copy and the heap afterwards.
\<close>

definition clone :: "host \<Rightarrow> proto \<Rightarrow> heap \<Rightarrow> nat \<Rightarrow> nat \<times> heap" where
  "clone host P h this =
     (let (copy, h1) = new_Metrics host h None
      in (copy, clone_loop P h1 this copy (for_in_keys P (h1 ! this))))"

section \<open>The statements of the specification\<close>

text \<open>
  The definitions of this section follow the wording of the specification, not the code;
  the theorems compare them with the definitions above.
\<close>

subsection \<open>Range containment\<close>

text \<open>A value that is absent or zero.\<close>

definition unset_or_zero :: "numval \<Rightarrow> bool" where
  "unset_or_zero v = (v = None \<or> v = Some (Fin 0))"

text \<open>An absent value read as the default \<open>d\<close>.\<close>

fun absent_as :: "jsnum \<Rightarrow> numval \<Rightarrow> jsnum" where
  "absent_as d None = d"
| "absent_as d (Some n) = n"

text \<open>
  Range containment as the specification words it: the minimums always apply, with the
  default 0 when absent; a maximum that is unset or zero does not constrain.
\<close>

definition claimed_inSizeRange :: "numobj option \<Rightarrow> numobj \<Rightarrow> bool" where
  "claimed_inSizeRange rng sz =
     (case rng of
        None \<Rightarrow> False
      | Some r \<Rightarrow>
          js_ge (map_of sz ''w'') (Some (absent_as (Fin 0) (map_of r ''minW''))) \<and>
          js_ge (map_of sz ''h'') (Some (absent_as (Fin 0) (map_of r ''minH''))) \<and>
          (unset_or_zero (map_of r ''maxW'') \<or> js_le (map_of sz ''w'') (map_of r ''maxW'')) \<and>
          (unset_or_zero (map_of r ''maxH'') \<or> js_le (map_of sz ''h'') (map_of r ''maxH'')))"

text \<open>A value that sets nothing: absent, zero or NaN.\<close>

definition unset :: "numval \<Rightarrow> bool" where
  "unset v = (v = None \<or> v = Some (Fin 0) \<or> v = Some NaN)"

text \<open>
  A size \<open>x\<close> that is at least the bound \<open>m\<close>, and one that is at most \<open>m\<close>: both are
  there, neither is NaN, and \<open>m \<le> x\<close>, respectively \<open>x \<le> m\<close>. No size is at least or at
  most a bound that is absent.
\<close>

fun at_least :: "numval \<Rightarrow> numval \<Rightarrow> bool" where
  "at_least (Some x) (Some m) = (x \<noteq> NaN \<and> m \<noteq> NaN \<and> num_le m x)"
| "at_least _ _ = False"

fun at_most :: "numval \<Rightarrow> numval \<Rightarrow> bool" where
  "at_most (Some x) (Some m) = (x \<noteq> NaN \<and> m \<noteq> NaN \<and> num_le x m)"
| "at_most _ _ = False"

subsection \<open>Merging\<close>

text \<open>A property of an argument that may be absent: an absent object has no property.\<close>

definition field :: "numobj option \<Rightarrow> string \<Rightarrow> numval" where
  "field ob k = (case ob of None \<Rightarrow> None | Some ps \<Rightarrow> map_of ps k)"

definition larger :: "jsnum \<Rightarrow> jsnum \<Rightarrow> jsnum" where
  "larger x y = (if num_le x y then y else x)"

definition smaller :: "jsnum \<Rightarrow> jsnum \<Rightarrow> jsnum" where
  "smaller x y = (if num_le x y then x else y)"

text \<open>An absent, zero or NaN value read as the default \<open>d\<close>.\<close>

fun unset_as :: "jsnum \<Rightarrow> numval \<Rightarrow> jsnum" where
  "unset_as d None = d"
| "unset_as d (Some NaN) = d"
| "unset_as d (Some (Fin x)) = (if x = 0 then d else Fin x)"
| "unset_as d (Some NegInf) = NegInf"
| "unset_as d (Some PosInf) = PosInf"

text \<open>
  The merge without the footprint as the specification words it: the larger width and
  height, the smaller maximums, an absent width or height read as 0 and an absent maximum
  as \<open>+\<infinity>\<close>.
\<close>

definition claimed_mergeSizeRange :: "numobj option \<Rightarrow> numobj option \<Rightarrow> numobj" where
  "claimed_mergeSizeRange a b =
     [(''width'', larger (absent_as (Fin 0) (field a ''width''))
                    (absent_as (Fin 0) (field b ''width''))),
      (''height'', larger (absent_as (Fin 0) (field a ''height''))
                    (absent_as (Fin 0) (field b ''height''))),
      (''maxW'', smaller (absent_as PosInf (field a ''maxW''))
                    (absent_as PosInf (field b ''maxW''))),
      (''maxH'', smaller (absent_as PosInf (field a ''maxH''))
                    (absent_as PosInf (field b ''maxH'')))]"

text \<open>
  The border and padding footprint as the specification words it: the aggregate, or outer
  minus inner when the aggregate is absent, or 0 when both are missing.
\<close>

definition claimed_footprint :: "numval \<Rightarrow> numval \<Rightarrow> numval \<Rightarrow> jsnum" where
  "claimed_footprint bp outr inner =
     (case bp of
        Some f \<Rightarrow> f
      | None \<Rightarrow> (case outr of Some ow \<Rightarrow> num_sub ow (ToNumber inner) | None \<Rightarrow> Fin 0))"

text \<open>The same with "absent" widened to absent, zero or NaN.\<close>

definition footprint :: "numval \<Rightarrow> numval \<Rightarrow> numval \<Rightarrow> jsnum" where
  "footprint bp outr inner =
     (if unset bp
      then (if unset outr then Fin 0 else num_sub (ToNumber outr) (ToNumber inner))
      else ToNumber bp)"

text \<open>The metrics with the footprints \<open>fw\<close> and \<open>fh\<close> added to its sizes and maximums.\<close>

definition outer_box :: "jsnum \<Rightarrow> jsnum \<Rightarrow> numobj \<Rightarrow> numobj" where
  "outer_box fw fh b =
     [(''width'', num_add (ToNumber (map_of b ''width'')) fw),
      (''height'', num_add (ToNumber (map_of b ''height'')) fh),
      (''maxW'', num_add (ToNumber (map_of b ''maxW'')) fw),
      (''maxH'', num_add (ToNumber (map_of b ''maxH'')) fh)]"

subsection \<open>Pixel literals\<close>

text \<open>An optional trailing \<^verbatim>\<open>px\<close>, in any letter case.\<close>

definition px_suffix :: "string \<Rightarrow> bool" where
  "px_suffix suf = (suf = [] \<or> suf = ''px'' \<or> suf = ''pX'' \<or> suf = ''Px'' \<or> suf = ''PX'')"

text \<open>
  A pixel literal in three parts: an optional leading minus sign, one or more digits, an
  optional trailing \<^verbatim>\<open>px\<close>.
\<close>

definition pixel_literal :: "string \<Rightarrow> string \<Rightarrow> string \<Rightarrow> bool" where
  "pixel_literal sign ds suf =
     ((sign = [] \<or> sign = ''-'') \<and> ds \<noteq> [] \<and> list_all is_digit ds \<and> px_suffix suf)"

definition is_pixel_literal :: "string \<Rightarrow> bool" where
  "is_pixel_literal s = (\<exists>sign ds suf. s = sign @ ds @ suf \<and> pixel_literal sign ds suf)"

text \<open>
  The natural number a string of digits denotes, by position: the digit at position \<open>i\<close>
  from the left, of code \<open>48 +\<close> its value, counts \<open>10\<close> to the power of the number of digits
  that follow it.
\<close>

definition denotes :: "string \<Rightarrow> nat" where
  "denotes ds = (\<Sum>i<length ds. (of_char (ds ! i) - 48) * 10 ^ (length ds - 1 - i))"

text \<open>The number \<open>N\<close> a pixel literal denotes, with its sign.\<close>

definition literal_value :: "string \<Rightarrow> string \<Rightarrow> real" where
  "literal_value sign ds = (if sign = ''-'' then - real (denotes ds) else real (denotes ds))"

text \<open>The JavaScript number for it: the Number value of the digits, with the sign.\<close>

definition literal_number :: "string \<Rightarrow> string \<Rightarrow> jsnum" where
  "literal_number sign ds =
     (if sign = ''-'' then num_neg (to_double (denotes ds)) else to_double (denotes ds))"

text \<open>A string that starts like a number: an optional minus sign, then a digit.\<close>

definition starts_like_number :: "string \<Rightarrow> bool" where
  "starts_like_number s =
     (\<exists>sign d rest. s = sign @ d # rest \<and> (sign = [] \<or> sign = ''-'') \<and> is_digit d)"

subsection \<open>Rounding\<close>

text \<open>\<open>x\<close> is a multiple of \<open>b\<close>: an integer number of times \<open>b\<close>.\<close>

definition multiple_of :: "real \<Rightarrow> real \<Rightarrow> bool" where
  "multiple_of x b = (\<exists>k::int. x = of_int k * b)"

subsection \<open>Metrics\<close>

text \<open>The style property \<open>k\<close> of the element parses to \<open>x\<close> pixels.\<close>

definition parses_to :: "host \<Rightarrow> element \<Rightarrow> string \<Rightarrow> real \<Rightarrow> bool" where
  "parses_to host el k x = (toPixels host el (getStyleObject host el k) = Some (Fin x))"

text \<open>
  The twelve per-side fields, each with the style property it is read from (lines 195 to
  213 of \<^verbatim>\<open>dimensions.js\<close>).
\<close>

definition side_fields :: "(string \<times> string) list" where
  "side_fields =
     [(''marginTop'', ''marginTop''), (''marginBottom'', ''marginBottom''),
      (''marginLeft'', ''marginLeft''), (''marginRight'', ''marginRight''),
      (''borderTop'', ''borderTopWidth''), (''borderBottom'', ''borderBottomWidth''),
      (''borderLeft'', ''borderLeftWidth''), (''borderRight'', ''borderRightWidth''),
      (''paddingTop'', ''paddingTop''), (''paddingBottom'', ''paddingBottom''),
      (''paddingLeft'', ''paddingLeft''), (''paddingRight'', ''paddingRight'')]"

text \<open>A style string that starts with a minus sign.\<close>

definition starts_minus :: "string option \<Rightarrow> bool" where
  "starts_minus v = (case v of Some (c # cs) \<Rightarrow> c = CHR ''-'' | _ \<Rightarrow> False)"

text \<open>
  A per-side field \<open>f\<close> of a snapshot \<open>m\<close> that holds the pixels of the style string \<open>v\<close>: a
  number other than NaN, which is the number \<^verbatim>\<open>toPixels\<close> reads from the string, and 0 when
  it reads none (or reads NaN). With the standard \<^verbatim>\<open>toPixels\<close> it is not negative unless
  the string starts with a minus sign.
\<close>

definition side_pixels :: "host \<Rightarrow> element \<Rightarrow> obj \<Rightarrow> string \<Rightarrow> string option \<Rightarrow> bool" where
  "side_pixels host el m f v =
     (\<exists>n. map_of m f = Some (Num n) \<and> n \<noteq> NaN \<and>
          (toPixels host el v = None \<longrightarrow> n = Fin 0) \<and>
          (\<forall>y. toPixels host el v = Some y \<longrightarrow> n = (if y = NaN then Fin 0 else y)) \<and>
          (host = Standard \<and> \<not> starts_minus v \<longrightarrow> num_le (Fin 0) n))"




text \<open>
  The element of the specification's example: margin \<^verbatim>\<open>10px\<close>, border \<^verbatim>\<open>2px\<close> and padding
  \<^verbatim>\<open>3px\<close> on all sides, rendered 100 by 50. (In MSIE its current style is the same, and
  every measurement gives 0.)
\<close>

definition example_style :: "(string \<times> string) list" where
  "example_style =
     [(''marginTop'', ''10px''), (''marginBottom'', ''10px''),
      (''marginLeft'', ''10px''), (''marginRight'', ''10px''),
      (''borderTopWidth'', ''2px''), (''borderBottomWidth'', ''2px''),
      (''borderLeftWidth'', ''2px''), (''borderRightWidth'', ''2px''),
      (''paddingTop'', ''3px''), (''paddingBottom'', ''3px''),
      (''paddingLeft'', ''3px''), (''paddingRight'', ''3px'')]"

definition styled :: "(string \<times> string) list \<Rightarrow> element" where
  "styled ps =
     \<lparr>computedStyle = map_of ps, currentStyle = map_of ps, pixelLeft = (\<lambda>s. Fin 0),
      offsetWidth = Fin 100, offsetHeight = Fin 50\<rparr>"

definition example_element :: element where
  "example_element = styled example_style"

text \<open>An element with a negative top margin and a negative maximum width.\<close>

definition negative_element :: element where
  "negative_element = styled [(''marginTop'', ''-5px''), (''maxWidth'', ''-5px'')]"

text \<open>An element without border and padding.\<close>

definition bare_element :: element where
  "bare_element = styled []"


text \<open>
  An element of MSIE whose top margin is \<^verbatim>\<open>1.5em\<close>, which the engine measures as 24
  pixels.
\<close>

definition em_element :: element where
  "em_element =
     \<lparr>computedStyle = map_of [], currentStyle = map_of [(''marginTop'', ''1.5em'')],
      pixelLeft = (\<lambda>s. if s = ''1.5em'' then Fin 24 else Fin 0),
      offsetWidth = Fin 100, offsetHeight = Fin 50\<rparr>"

subsection \<open>Copying\<close>

text \<open>
  The prototype of the examples: \<^verbatim>\<open>clone\<close>, an enumerable property that holds the function
  object at address 0.
\<close>

definition example_proto :: proto where
  "example_proto = [(''clone'', Ref 0, True)]"

text \<open>
  A heap with that function object at address 0 and, at address 1, a \<^verbatim>\<open>Metrics\<close> object
  built without an element and then extended: \<^verbatim>\<open>m = new Metrics(); m.width = 90;
  m.note = undefined\<close>.
\<close>

definition example_heap :: heap where
  "example_heap =
     (let (m, h) = new_Metrics Standard [[]] None
      in set_prop (set_prop h m ''width'' (Num (Fin 90))) m ''note'' Undefined)"

section \<open>Properties\<close>

subsection \<open>Numbers\<close>

lemma truthy_iff: "truthy v = (\<not> unset v)"
  by (cases v rule: truthy.cases) (auto simp: unset_def)

lemma or_else_unset_as: "or_else v d = unset_as d v"
  by (cases v rule: truthy.cases) auto

lemma unset_as_not_NaN: "d \<noteq> NaN \<Longrightarrow> unset_as d v \<noteq> NaN"
  by (cases v rule: truthy.cases) auto

lemma Math_max_larger: "x \<noteq> NaN \<Longrightarrow> y \<noteq> NaN \<Longrightarrow> Math_max x y = larger x y"
  by (cases x; cases y) (auto simp: larger_def)

lemma Math_min_smaller: "x \<noteq> NaN \<Longrightarrow> y \<noteq> NaN \<Longrightarrow> Math_min x y = smaller x y"
  by (cases x; cases y) (auto simp: smaller_def)

lemma num_add_zero: "num_add x (Fin 0) = x"
  by (cases x) auto

lemma ToNumber_unset_as: "unset_as d (Some (ToNumber v)) = unset_as d v"
  by (cases v) auto

lemma merge_off: "merge_bpWidth b False = Fin 0" "merge_bpHeight b False = Fin 0"
  by (simp_all add: merge_bpWidth_def merge_bpHeight_def)

subsection \<open>Range containment\<close>

lemma js_ge_at_least: "js_ge x m = at_least x m"
  by (cases x; cases m) (auto simp: js_ge_def elim: num_le.elims)

lemma js_le_at_most: "js_le x m = at_most x m"
  by (cases x; cases m) (auto simp: js_le_def elim: num_le.elims)

text \<open>
  C1, as the code has it. \<^verbatim>\<open>inSizeRange\<close> is false for every size when the range is absent.
  Otherwise it is true exactly when \<^verbatim>\<open>minW\<close> and \<^verbatim>\<open>minH\<close> are there and the width is at
  least \<^verbatim>\<open>minW\<close>, the height is at least \<^verbatim>\<open>minH\<close>, the width is at most \<^verbatim>\<open>maxW\<close> unless
  \<^verbatim>\<open>maxW\<close> is absent, zero or NaN, and the height is at most \<^verbatim>\<open>maxH\<close> unless \<^verbatim>\<open>maxH\<close> is
  absent, zero or NaN. The comparisons are inclusive. The minimums always apply and have no
  default: a range without \<^verbatim>\<open>minW\<close> or without \<^verbatim>\<open>minH\<close> contains no size, and so does
  every result of \<^verbatim>\<open>mergeSizeRange\<close>.
\<close>

theorem inSizeRange_bounds:
  "inSizeRange None sz = False \<and>
   inSizeRange (Some r) sz =
     (at_least (map_of sz ''w'') (map_of r ''minW'') \<and>
      at_least (map_of sz ''h'') (map_of r ''minH'') \<and>
      (unset (map_of r ''maxW'') \<or> at_most (map_of sz ''w'') (map_of r ''maxW'')) \<and>
      (unset (map_of r ''maxH'') \<or> at_most (map_of sz ''h'') (map_of r ''maxH''))) \<and>
   (map_of r ''minW'' = None \<or> map_of r ''minH'' = None \<longrightarrow> \<not> inSizeRange (Some r) sz) \<and>
   \<not> inSizeRange (Some (mergeSizeRange a b outer)) sz"
proof -
  have eq: "inSizeRange (Some r) sz =
     (at_least (map_of sz ''w'') (map_of r ''minW'') \<and>
      at_least (map_of sz ''h'') (map_of r ''minH'') \<and>
      (unset (map_of r ''maxW'') \<or> at_most (map_of sz ''w'') (map_of r ''maxW'')) \<and>
      (unset (map_of r ''maxH'') \<or> at_most (map_of sz ''h'') (map_of r ''maxH'')))" for r
    by (auto simp: inSizeRange_def truthy_iff js_ge_at_least js_le_at_most)
  have no: "\<not> inSizeRange (Some r) sz" if "map_of r ''minW'' = None \<or> map_of r ''minH'' = None"
    using that unfolding eq by (elim disjE) simp_all
  have "map_of (mergeSizeRange a b outer) ''minW'' = None"
    by (simp add: mergeSizeRange_def Let_def)
  then have m: "\<not> inSizeRange (Some (mergeSizeRange a b outer)) sz"
    unfolding eq by simp
  have n: "inSizeRange None sz = False"
    by (simp add: inSizeRange_def)
  show ?thesis
    by (intro conjI impI; (rule n eq m | erule no))
qed

theorem inSizeRange_bounds_witness:
  "map_of [(''maxW'', Fin 10), (''maxH'', Fin 10)] ''minW'' = None \<and>
   \<not> inSizeRange (Some [(''maxW'', Fin 10), (''maxH'', Fin 10)]) [(''w'', Fin 5), (''h'', Fin 5)] \<and>
   inSizeRange (Some [(''minW'', Fin 5), (''minH'', Fin 5), (''maxW'', Fin 10), (''maxH'', Fin 10)])
     [(''w'', Fin 5), (''h'', Fin 10)] \<and>
   \<not> inSizeRange (Some [(''minW'', Fin 5), (''minH'', Fin 5), (''maxW'', Fin 10), (''maxH'', Fin 10)])
     [(''w'', Fin 11), (''h'', Fin 10)]"
proof -
  have a: "map_of [(''maxW'', Fin 10), (''maxH'', Fin 10)] ''minW'' = (None :: jsnum option)"
    by simp
  note t = inSizeRange_bounds [of "[(''w'', Fin 5), (''h'', Fin 5)]"
      "[(''maxW'', Fin 10), (''maxH'', Fin 10)]" None None False]
  from t a have b: "\<not> inSizeRange (Some [(''maxW'', Fin 10), (''maxH'', Fin 10)])
      [(''w'', Fin 5), (''h'', Fin 5)]"
    by blast
  have c: "inSizeRange
      (Some [(''minW'', Fin 5), (''minH'', Fin 5), (''maxW'', Fin 10), (''maxH'', Fin 10)])
      [(''w'', Fin 5), (''h'', Fin 10)]"
    using inSizeRange_bounds [of "[(''w'', Fin 5), (''h'', Fin 10)]"
      "[(''minW'', Fin 5), (''minH'', Fin 5), (''maxW'', Fin 10), (''maxH'', Fin 10)]" None None False]
    by (simp add: unset_def)
  have d: "\<not> inSizeRange
      (Some [(''minW'', Fin 5), (''minH'', Fin 5), (''maxW'', Fin 10), (''maxH'', Fin 10)])
      [(''w'', Fin 11), (''h'', Fin 10)]"
    using inSizeRange_bounds [of "[(''w'', Fin 11), (''h'', Fin 10)]"
      "[(''minW'', Fin 5), (''minH'', Fin 5), (''maxW'', Fin 10), (''maxH'', Fin 10)]" None None False]
    by (simp add: unset_def)
  from a b c d show ?thesis by (simp only: simp_thms)
qed

text \<open>
  C1 as the specification states it fails where a minimum is absent: the specification
  gives an absent minimum the default 0, so that the range \<^verbatim>\<open>{maxW:10, maxH:10}\<close> would
  contain the size \<^verbatim>\<open>{w:5, h:5}\<close>; in the code \<^verbatim>\<open>5 >= undefined\<close> is false and the size is
  rejected. It also fails where a maximum is NaN, which is neither unset nor zero and which
  no width stays below, but for which \<^verbatim>\<open>!range.maxW\<close> holds: the size is accepted.
\<close>

theorem inSizeRange_absent_minimum:
  "claimed_inSizeRange (Some [(''maxW'', Fin 10), (''maxH'', Fin 10)])
     [(''w'', Fin 5), (''h'', Fin 5)] \<and>
   \<not> inSizeRange (Some [(''maxW'', Fin 10), (''maxH'', Fin 10)])
     [(''w'', Fin 5), (''h'', Fin 5)] \<and>
   inSizeRange (Some [(''minW'', Fin 0), (''minH'', Fin 0), (''maxW'', NaN)])
     [(''w'', Fin 5), (''h'', Fin 5)] \<and>
   \<not> claimed_inSizeRange (Some [(''minW'', Fin 0), (''minH'', Fin 0), (''maxW'', NaN)])
     [(''w'', Fin 5), (''h'', Fin 5)]"
  by (simp add: inSizeRange_def claimed_inSizeRange_def unset_or_zero_def js_ge_def js_le_def)

subsection \<open>Merging\<close>

text \<open>
  C2, as the code has it. For every pair of arguments, each possibly absent,
  \<^verbatim>\<open>mergeSizeRange(a, b, false)\<close> is the record of the larger width, the larger height,
  the smaller \<^verbatim>\<open>maxW\<close> and the smaller \<^verbatim>\<open>maxH\<close> of the two, where a width or height that is
  absent, zero or NaN counts as 0 and a maximum that is absent, zero or NaN counts as
  \<open>+\<infinity>\<close>; two absent arguments give width 0, height 0 and both maximums \<open>+\<infinity>\<close>.
\<close>

theorem mergeSizeRange_inner:
  "mergeSizeRange a b False =
     [(''width'', larger (unset_as (Fin 0) (field a ''width''))
                    (unset_as (Fin 0) (field b ''width''))),
      (''height'', larger (unset_as (Fin 0) (field a ''height''))
                    (unset_as (Fin 0) (field b ''height''))),
      (''maxW'', smaller (unset_as PosInf (field a ''maxW''))
                    (unset_as PosInf (field b ''maxW''))),
      (''maxH'', smaller (unset_as PosInf (field a ''maxH''))
                    (unset_as PosInf (field b ''maxH'')))] \<and>
   mergeSizeRange None None False =
     [(''width'', Fin 0), (''height'', Fin 0), (''maxW'', PosInf), (''maxH'', PosInf)]"
proof -
  have f: "map_of (case x of None \<Rightarrow> [] | Some ps \<Rightarrow> ps) k = field x k" for x k
    by (cases x) (simp_all add: field_def)
  show ?thesis
    by (simp add: mergeSizeRange_def merge_off Let_def f num_add_zero
        or_else_unset_as ToNumber_unset_as Math_max_larger Math_min_smaller unset_as_not_NaN
        del: or_else.simps)
       (simp add: field_def larger_def smaller_def)
qed

text \<open>
  C2 as the specification states it fails where a maximum is zero: the smaller of the
  maximums 0 and 100 is 0, and the code returns 100, since \<^verbatim>\<open>a.maxW || Infinity\<close> reads
  a zero maximum as no maximum.
\<close>

theorem mergeSizeRange_zero_maximum:
  "mergeSizeRange (Some [(''maxW'', Fin 0)]) (Some [(''maxW'', Fin 100)]) False
     \<noteq> claimed_mergeSizeRange (Some [(''maxW'', Fin 0)]) (Some [(''maxW'', Fin 100)]) \<and>
   map_of (mergeSizeRange (Some [(''maxW'', Fin 0)]) (Some [(''maxW'', Fin 100)]) False) ''maxW''
     = Some (Fin 100) \<and>
   map_of (claimed_mergeSizeRange (Some [(''maxW'', Fin 0)]) (Some [(''maxW'', Fin 100)])) ''maxW''
     = Some (Fin 0)"
  by (simp add: mergeSizeRange_def merge_off Let_def claimed_mergeSizeRange_def smaller_def
      larger_def field_def)

text \<open>
  C3, as the code has it. With \<^verbatim>\<open>outer = true\<close> the footprint of the metrics is its
  \<^verbatim>\<open>bpWidth\<close> (\<^verbatim>\<open>bpHeight\<close>); when that is absent, zero or NaN it is
  \<^verbatim>\<open>outerWidth - width\<close> (\<^verbatim>\<open>outerHeight - height\<close>); and when \<^verbatim>\<open>outerWidth\<close>
  (\<^verbatim>\<open>outerHeight\<close>) is absent, zero or NaN as well it is 0. The merge is the merge without
  footprint of the range and the metrics whose width and \<^verbatim>\<open>maxW\<close> have the width footprint
  added and whose height and \<^verbatim>\<open>maxH\<close> have the height footprint added. The metrics
  \<^verbatim>\<open>{width:100, bpWidth:20, height:50, bpHeight:10, maxW:200, maxH:100}\<close> merged into
  \<^verbatim>\<open>{width:50, height:50, maxW:300, maxH:300}\<close> give width 120 and \<^verbatim>\<open>maxW\<close> 220.
\<close>

theorem mergeSizeRange_outer:
  "merge_bpWidth b True
     = footprint (map_of b ''bpWidth'') (map_of b ''outerWidth'') (map_of b ''width'') \<and>
   merge_bpHeight b True
     = footprint (map_of b ''bpHeight'') (map_of b ''outerHeight'') (map_of b ''height'') \<and>
   mergeSizeRange a (Some b) True
     = mergeSizeRange a
         (Some (outer_box
            (footprint (map_of b ''bpWidth'') (map_of b ''outerWidth'') (map_of b ''width''))
            (footprint (map_of b ''bpHeight'') (map_of b ''outerHeight'') (map_of b ''height''))
            b)) False \<and>
   mergeSizeRange a None True = mergeSizeRange a None False \<and>
   mergeSizeRange
     (Some [(''width'', Fin 50), (''height'', Fin 50), (''maxW'', Fin 300), (''maxH'', Fin 300)])
     (Some [(''width'', Fin 100), (''bpWidth'', Fin 20), (''height'', Fin 50),
            (''bpHeight'', Fin 10), (''maxW'', Fin 200), (''maxH'', Fin 100)]) True
     = [(''width'', Fin 120), (''height'', Fin 60), (''maxW'', Fin 220), (''maxH'', Fin 110)]"
proof -
  have w: "merge_bpWidth b True
     = footprint (map_of b ''bpWidth'') (map_of b ''outerWidth'') (map_of b ''width'')"
    by (cases "map_of b ''bpWidth''" rule: truthy.cases)
       (auto simp: merge_bpWidth_def footprint_def unset_def truthy_iff)
  have h: "merge_bpHeight b True
     = footprint (map_of b ''bpHeight'') (map_of b ''outerHeight'') (map_of b ''height'')"
    by (cases "map_of b ''bpHeight''" rule: truthy.cases)
       (auto simp: merge_bpHeight_def footprint_def unset_def truthy_iff)
  have "mergeSizeRange a (Some b) True
     = mergeSizeRange a (Some (outer_box (merge_bpWidth b True) (merge_bpHeight b True) b)) False"
    by (simp add: mergeSizeRange_def Let_def outer_box_def num_add_zero merge_off
        del: or_else.simps)
  then have m: "mergeSizeRange a (Some b) True
     = mergeSizeRange a
         (Some (outer_box
            (footprint (map_of b ''bpWidth'') (map_of b ''outerWidth'') (map_of b ''width''))
            (footprint (map_of b ''bpHeight'') (map_of b ''outerHeight'') (map_of b ''height''))
            b)) False"
    by (simp only: w h)
  have n: "mergeSizeRange a None True = mergeSizeRange a None False"
    by (simp add: mergeSizeRange_def Let_def merge_bpWidth_def merge_bpHeight_def)
  have e: "mergeSizeRange
     (Some [(''width'', Fin 50), (''height'', Fin 50), (''maxW'', Fin 300), (''maxH'', Fin 300)])
     (Some [(''width'', Fin 100), (''bpWidth'', Fin 20), (''height'', Fin 50),
            (''bpHeight'', Fin 10), (''maxW'', Fin 200), (''maxH'', Fin 100)]) True
     = [(''width'', Fin 120), (''height'', Fin 60), (''maxW'', Fin 220), (''maxH'', Fin 110)]"
    by (simp add: mergeSizeRange_def Let_def merge_bpWidth_def merge_bpHeight_def)
  from w h m n e show ?thesis by blast
qed

text \<open>
  C3 as the specification states it fails where the aggregate is present and zero: the
  footprint of \<^verbatim>\<open>{width:90, bpWidth:0, outerWidth:100}\<close> would be its \<^verbatim>\<open>bpWidth\<close>, 0, and the
  merged width 90; the code falls back to \<^verbatim>\<open>outerWidth - width\<close>, 10, and returns 100.
\<close>

theorem mergeSizeRange_zero_aggregate:
  "merge_bpWidth [(''width'', Fin 90), (''bpWidth'', Fin 0), (''outerWidth'', Fin 100)] True
     = Fin 10 \<and>
   claimed_footprint (Some (Fin 0)) (Some (Fin 100)) (Some (Fin 90)) = Fin 0 \<and>
   mergeSizeRange None
       (Some [(''width'', Fin 90), (''bpWidth'', Fin 0), (''outerWidth'', Fin 100)]) True
     = [(''width'', Fin 100), (''height'', Fin 0), (''maxW'', PosInf), (''maxH'', PosInf)] \<and>
   mergeSizeRange None
       (Some (outer_box (claimed_footprint (Some (Fin 0)) (Some (Fin 100)) (Some (Fin 90)))
                (claimed_footprint None None None)
                [(''width'', Fin 90), (''bpWidth'', Fin 0), (''outerWidth'', Fin 100)])) False
     = [(''width'', Fin 90), (''height'', Fin 0), (''maxW'', PosInf), (''maxH'', PosInf)]"
  by (simp add: mergeSizeRange_def Let_def merge_bpWidth_def merge_bpHeight_def
      claimed_footprint_def num_sub_def outer_box_def)

subsection \<open>Pixel conversion\<close>

lemma to_double_small: "n < 2 ^ 53 \<Longrightarrow> to_double n = Fin (real n)"
  by (simp add: to_double_def)

lemma to_double_cases:
  "to_double n = PosInf \<or> (\<exists>x. to_double n = Fin x \<and> 0 \<le> x \<and> (0 < n \<longrightarrow> 0 < x))"
proof (cases "n < 2 ^ 53")
  case True
  then show ?thesis by (simp add: to_double_def)
next
  case False
  define e where "e = floorlog 2 n - 53"
  define q where "q = n div 2 ^ e"
  define m where "m = (if 2 ^ e < 2 * (n mod 2 ^ e) \<or> (2 * (n mod 2 ^ e) = 2 ^ e \<and> odd q)
                       then q + 1 else q)"
  from False have n: "0 < n" by (cases n) auto
  from floorlog_bounds [OF n, of 2] have "2 ^ (floorlog 2 n - 1) \<le> n" by simp
  moreover have "(2::nat) ^ e \<le> 2 ^ (floorlog 2 n - 1)"
    unfolding e_def by (rule power_increasing) simp_all
  ultimately have "2 ^ e \<le> n" by (rule order_trans [rotated])
  then have "0 < q" unfolding q_def by (simp add: div_greater_zero_iff)
  then have "0 < m * 2 ^ e" unfolding m_def by simp
  moreover from False have "to_double n = (if 2 ^ 1024 \<le> m * 2 ^ e then PosInf
                                            else Fin (real (m * 2 ^ e)))"
    by (simp add: to_double_def Let_def m_def q_def e_def)
  ultimately show ?thesis by auto
qed

lemma to_double_not_NaN: "to_double n \<noteq> NaN" "num_neg (to_double n) \<noteq> NaN"
  using to_double_cases [of n] by auto

lemma to_double_nonneg: "num_le (Fin 0) (to_double n)"
  using to_double_cases [of n] by auto

lemma to_double_zero: "to_double n = Fin 0 \<Longrightarrow> n = 0"
  using to_double_cases [of n] by auto

lemma to_double_overflow:
  assumes "2 ^ 1024 \<le> n"
  shows "to_double n = PosInf"
proof -
  define e where "e = floorlog 2 n - 53"
  define q where "q = n div 2 ^ e"
  define m where "m = (if 2 ^ e < 2 * (n mod 2 ^ e) \<or> (2 * (n mod 2 ^ e) = 2 ^ e \<and> odd q)
                       then q + 1 else q)"
  from assms have big: "\<not> n < 2 ^ 53"
    using power_increasing [of 53 1024 "2::nat"] by simp
  from assms have n: "0 < n"
    by (cases n) auto
  from assms have fl: "Suc 1024 \<le> floorlog 2 n"
    by (rule floorlog_ge_SucI) simp
  then have split: "floorlog 2 n - 1 = 52 + e"
    unfolding e_def by simp
  from floorlog_bounds [OF n, of 2] have "2 ^ (floorlog 2 n - 1) \<le> n"
    by simp
  then have "(2::nat) ^ 52 * 2 ^ e \<le> n"
    unfolding split by (simp add: power_add)
  then have q: "2 ^ 52 \<le> q"
    unfolding q_def by (simp add: less_eq_div_iff_mult_less_eq)
  have qm: "q \<le> m"
    unfolding m_def by simp
  from fl have "(2::nat) ^ 1024 \<le> 2 ^ (52 + e)"
    unfolding split [symmetric] by (intro power_increasing) simp_all
  then have "(2::nat) ^ 1024 \<le> 2 ^ 52 * 2 ^ e"
    by (simp only: power_add)
  also have "\<dots> \<le> q * 2 ^ e"
    by (rule mult_le_mono1) (rule q)
  also have "\<dots> \<le> m * 2 ^ e"
    by (rule mult_le_mono1) (rule qm)
  finally have "2 ^ 1024 \<le> m * 2 ^ e" .
  moreover from big have "to_double n = (if 2 ^ 1024 \<le> m * 2 ^ e then PosInf
                                         else Fin (real (m * 2 ^ e)))"
    by (simp add: to_double_def Let_def m_def q_def e_def)
  ultimately show ?thesis
    by (simp only: if_True)
qed

lemma digit_value_of_char: "is_digit c \<Longrightarrow> digit_value c = of_char c - 48"
  unfolding is_digit_def digit_value_def by (elim disjE | simp)+

lemma denotes_Nil: "denotes [] = 0"
  by (simp add: denotes_def)

lemma denotes_Cons: "denotes (c # cs) = (of_char c - 48) * 10 ^ length cs + denotes cs"
  by (simp add: denotes_def sum.lessThan_Suc_shift del: sum.lessThan_Suc)

lemma decimal_denotes:
  "list_all is_digit ds \<Longrightarrow> decimal acc ds = acc * 10 ^ length ds + denotes ds"
  by (induction ds arbitrary: acc)
     (simp_all add: denotes_Nil denotes_Cons digit_value_of_char algebra_simps)

lemma denotes_decimal: "list_all is_digit ds \<Longrightarrow> denotes ds = decimal 0 ds"
  by (simp add: decimal_denotes)

lemma digits_then_suffix:
  assumes "list_all is_digit ds" "px_suffix suf"
  shows "takeWhile is_digit (ds @ suf) = ds" "dropWhile is_digit (ds @ suf) = suf"
proof -
  from assms(2) have "takeWhile is_digit suf = []" "dropWhile is_digit suf = suf"
    by (auto simp: px_suffix_def is_digit_def)
  with assms(1) show "takeWhile is_digit (ds @ suf) = ds" "dropWhile is_digit (ds @ suf) = suf"
    by (simp_all add: list_all_iff)
qed

lemma digit_not_sign: "is_digit c \<Longrightarrow> c \<noteq> CHR ''-'' \<and> c \<noteq> CHR ''+''"
  by (auto simp: is_digit_def)

lemma pixel_literal_accepted:
  assumes "pixel_literal sign ds suf"
  shows "pixel_test (sign @ ds @ suf)"
    and "parseFloat (sign @ ds @ suf) = literal_number sign ds"
    and "sign @ ds @ suf \<noteq> []"
proof -
  from assms have ds: "ds \<noteq> []" "list_all is_digit ds" and suf: "px_suffix suf"
    and sign: "sign = [] \<or> sign = ''-''"
    by (simp_all add: pixel_literal_def)
  from ds obtain d ds' where d: "ds = d # ds'" "is_digit d"
    by (cases ds) auto
  note tk = digits_then_suffix [OF ds(2) suf]
  note dn = denotes_decimal [OF ds(2)]
  from sign show "pixel_test (sign @ ds @ suf)"
  proof
    assume "sign = []"
    with d digit_not_sign [of d] tk ds suf show ?thesis
      by (auto simp: pixel_test_def px_suffix_def simp del: takeWhile_append2 dropWhile_append2)
  next
    assume "sign = ''-''"
    with tk ds suf show ?thesis
      by (auto simp: pixel_test_def px_suffix_def)
  qed
  from sign show "parseFloat (sign @ ds @ suf) = literal_number sign ds"
  proof
    assume "sign = []"
    with d digit_not_sign [of d] tk ds dn show ?thesis
      by (auto simp: parseFloat_def literal_number_def simp del: takeWhile_append2)
  next
    assume "sign = ''-''"
    with tk ds dn show ?thesis
      by (auto simp: parseFloat_def literal_number_def)
  qed
  from ds show "sign @ ds @ suf \<noteq> []" by simp
qed

lemma pixel_test_literal:
  assumes "pixel_test s"
  shows "is_pixel_literal s"
proof -
  define s1 where "s1 = (case s of [] \<Rightarrow> s | c # r \<Rightarrow> if c = CHR ''-'' then r else s)"
  define sign where "sign = (case s of [] \<Rightarrow> [] | c # r \<Rightarrow> if c = CHR ''-'' then ''-'' else [])"
  have s: "s = sign @ s1"
    by (cases s) (simp_all add: s1_def sign_def)
  have split: "s1 = takeWhile is_digit s1 @ dropWhile is_digit s1"
    by simp
  from assms have "takeWhile is_digit s1 \<noteq> []" "px_suffix (dropWhile is_digit s1)"
    by (simp_all add: pixel_test_def s1_def Let_def px_suffix_def)
  moreover have "list_all is_digit (takeWhile is_digit s1)"
    by (simp add: list_all_iff) (meson set_takeWhileD)
  moreover have "sign = [] \<or> sign = ''-''"
    by (cases s) (simp_all add: sign_def)
  ultimately have "pixel_literal sign (takeWhile is_digit s1) (dropWhile is_digit s1)"
    by (simp add: pixel_literal_def)
  with s split show ?thesis
    unfolding is_pixel_literal_def by metis
qed

lemma number_test_starts: "number_test s = starts_like_number s"
proof
  assume t: "number_test s"
  show "starts_like_number s"
  proof (cases s)
    case Nil
    with t show ?thesis by (simp add: number_test_def)
  next
    case (Cons c r)
    show ?thesis
    proof (cases "c = CHR ''-''")
      case True
      with t Cons obtain d r' where "r = d # r'" "is_digit d"
        by (cases r) (auto simp: number_test_def)
      with Cons True have "s = ''-'' @ d # r'" by simp
      with \<open>is_digit d\<close> show ?thesis
        unfolding starts_like_number_def by blast
    next
      case False
      with t Cons have "is_digit c" by (simp add: number_test_def)
      with Cons have "s = [] @ c # r \<and> is_digit c" by simp
      then show ?thesis
        unfolding starts_like_number_def by blast
    qed
  qed
next
  assume "starts_like_number s"
  then obtain sign d rest where s: "s = sign @ d # rest" "sign = [] \<or> sign = ''-''" "is_digit d"
    unfolding starts_like_number_def by blast
  from s(2) show "number_test s"
  proof
    assume "sign = []"
    with s digit_not_sign [of d] show ?thesis by (simp add: number_test_def)
  next
    assume "sign = ''-''"
    with s show ?thesis by (simp add: number_test_def)
  qed
qed

lemma pixel_literal_starts: "is_pixel_literal s \<Longrightarrow> starts_like_number s"
proof -
  assume "is_pixel_literal s"
  then obtain sign ds suf where s: "s = sign @ ds @ suf" "pixel_literal sign ds suf"
    unfolding is_pixel_literal_def by blast
  then obtain d ds' where "ds = d # ds'" "is_digit d" "sign = [] \<or> sign = ''-''"
    by (cases ds) (auto simp: pixel_literal_def)
  with s(1) have "s = sign @ d # (ds' @ suf) \<and> (sign = [] \<or> sign = ''-'') \<and> is_digit d"
    by simp
  then show ?thesis
    unfolding starts_like_number_def by blast
qed

lemma literal_number_small:
  "denotes ds < 2 ^ 53 \<Longrightarrow> literal_number sign ds = Fin (literal_value sign ds)"
  by (simp add: literal_number_def literal_value_def to_double_small)

lemma literal_number_overflow:
  "2 ^ 1024 \<le> denotes ds
     \<Longrightarrow> literal_number sign ds = (if sign = ''-'' then NegInf else PosInf)"
  by (simp add: literal_number_def to_double_overflow)

lemma decimal_zeros: "decimal acc (replicate n (CHR ''0'')) = acc * 10 ^ n"
  by (induction n arbitrary: acc) (simp_all add: digit_value_def)

lemma pixel_literal_zeros: "pixel_literal [] (CHR ''1'' # replicate n (CHR ''0'')) ''px''"
  by (simp add: pixel_literal_def px_suffix_def is_digit_def list_all_iff)

lemma denotes_zeros: "denotes (CHR ''1'' # replicate n (CHR ''0'')) = 10 ^ n"
proof -
  have "list_all is_digit (CHR ''1'' # replicate n (CHR ''0''))"
    by (simp add: is_digit_def list_all_iff)
  then show ?thesis
    by (simp add: denotes_decimal decimal_zeros digit_value_def)
qed

lemma ten_overflows: "(2::nat) ^ 1024 \<le> 10 ^ 309"
  by simp

text \<open>
  C4, as the code has it. A string made of an optional minus sign, one or more digits and
  an optional \<^verbatim>\<open>px\<close> in any letter case is converted, by either definition of \<^verbatim>\<open>toPixels\<close>,
  to the JavaScript number for the number \<open>N\<close> it denotes: \<open>N\<close> itself, with its sign, when its
  digits denote less than \<open>2^53\<close>, the nearest double beyond, and an infinity when they
  denote \<open>2^1024\<close> or more. An absent value and the
  empty string are converted to \<^verbatim>\<open>null\<close>. By the standard definition every other string,
  \<^verbatim>\<open>normal\<close> and \<^verbatim>\<open>1.5em\<close> among them, is converted to \<^verbatim>\<open>null\<close>. By the replacement
  installed in MSIE a string that is no pixel literal is converted to \<^verbatim>\<open>null\<close> unless it
  starts like a number (an optional minus sign, then a digit), as \<^verbatim>\<open>1.5em\<close> does: such a
  string is converted to the pixels the engine measures for it. \<^verbatim>\<open>toPixels\<close> is a total
  function: no branch of it raises.
\<close>

theorem toPixels_pixel_literal:
  "(pixel_literal sign ds suf \<longrightarrow>
      toPixels host el (Some (sign @ ds @ suf)) = Some (literal_number sign ds)) \<and>
   (pixel_literal sign ds suf \<and> denotes ds < 2 ^ 53 \<longrightarrow>
      toPixels host el (Some (sign @ ds @ suf)) = Some (Fin (literal_value sign ds))) \<and>
   (pixel_literal sign ds suf \<and> 2 ^ 1024 \<le> denotes ds \<longrightarrow>
      toPixels host el (Some (sign @ ds @ suf))
        = Some (if sign = ''-'' then NegInf else PosInf)) \<and>
   (\<not> is_pixel_literal s \<longrightarrow> toPixels Standard el (Some s) = None) \<and>
   (\<not> is_pixel_literal s \<and> starts_like_number s \<longrightarrow>
      toPixels MSIE el (Some s) = Some (pixelLeft el s)) \<and>
   (\<not> starts_like_number s \<longrightarrow> toPixels MSIE el (Some s) = None) \<and>
   toPixels host el None = None \<and>
   toPixels host el (Some '''') = None \<and>
   toPixels host el (Some ''normal'') = None \<and>
   toPixels Standard el (Some ''1.5em'') = None"
proof -
  have a: "toPixels host el (Some (sign @ ds @ suf)) = Some (literal_number sign ds)"
    if "pixel_literal sign ds suf"
    using pixel_literal_accepted [OF that]
    by (cases host) (simp_all add: toPixels_def toPixels_standard_def toPixels_msie_def)
  have b: "toPixels host el (Some (sign @ ds @ suf)) = Some (Fin (literal_value sign ds))"
    if "pixel_literal sign ds suf \<and> denotes ds < 2 ^ 53"
    using that a by (simp add: literal_number_small)
  have b2: "toPixels host el (Some (sign @ ds @ suf)) = Some (if sign = ''-'' then NegInf else PosInf)"
    if "pixel_literal sign ds suf \<and> 2 ^ 1024 \<le> denotes ds"
    using that a by (simp only: literal_number_overflow)
  have c: "toPixels Standard el (Some s) = None" if "\<not> is_pixel_literal s"
    using that pixel_test_literal [of s] by (auto simp: toPixels_def toPixels_standard_def)
  have d: "toPixels MSIE el (Some s) = Some (pixelLeft el s)"
    if "\<not> is_pixel_literal s \<and> starts_like_number s"
  proof -
    from that pixel_test_literal [of s] have "\<not> pixel_test s" by blast
    moreover from that have "number_test s" "s \<noteq> []"
      by (auto simp: number_test_starts starts_like_number_def)
    ultimately show ?thesis
      by (simp add: toPixels_def toPixels_msie_def)
  qed
  have e: "toPixels MSIE el (Some s) = None" if "\<not> starts_like_number s"
  proof -
    from that pixel_literal_starts [of s] pixel_test_literal [of s] have "\<not> pixel_test s"
      by blast
    moreover from that have "\<not> number_test s"
      by (simp add: number_test_starts)
    ultimately show ?thesis
      by (simp add: toPixels_def toPixels_msie_def)
  qed
  have f: "toPixels host el None = None" "toPixels host el (Some '''') = None"
    "toPixels host el (Some ''normal'') = None" "toPixels Standard el (Some ''1.5em'') = None"
    by (cases host; simp add: toPixels_def toPixels_standard_def toPixels_msie_def
        pixel_test_def number_test_def is_digit_def)+
  show ?thesis
    by (intro conjI impI; (rule f | erule a b b2 c d e))
qed

theorem toPixels_pixel_literal_witness:
  "pixel_literal ''-'' ''12'' ''PX'' \<and> denotes ''12'' < 2 ^ 53 \<and>
   toPixels MSIE em_element (Some ''-12PX'') = Some (Fin (- 12)) \<and>
   \<not> is_pixel_literal ''12p'' \<and> toPixels Standard em_element (Some ''12p'') = None \<and>
   starts_like_number ''12p'' \<and> toPixels MSIE em_element (Some ''12p'') = Some (Fin 0) \<and>
   \<not> starts_like_number ''auto'' \<and> toPixels MSIE em_element (Some ''auto'') = None \<and>
   pixel_literal [] (CHR ''1'' # replicate 309 (CHR ''0'')) ''px'' \<and>
   2 ^ 1024 \<le> denotes (CHR ''1'' # replicate 309 (CHR ''0'')) \<and>
   toPixels Standard em_element (Some (CHR ''1'' # replicate 309 (CHR ''0'') @ ''px''))
     = Some PosInf"
proof -
  have l: "pixel_literal ''-'' ''12'' ''PX''"
    by (simp add: pixel_literal_def px_suffix_def is_digit_def)
  have dn: "denotes ''12'' = 12"
    by (simp add: denotes_decimal is_digit_def digit_value_def)
  then have v: "literal_value ''-'' ''12'' = - 12" "denotes ''12'' < 2 ^ 53"
    by (simp_all add: literal_value_def)
  have n: "\<not> pixel_test ''12p''"
    by (simp add: pixel_test_def is_digit_def)
  have p: "\<not> is_pixel_literal ''12p''"
  proof
    assume "is_pixel_literal ''12p''"
    then obtain sign ds suf where "''12p'' = sign @ ds @ suf" "pixel_literal sign ds suf"
      unfolding is_pixel_literal_def by blast
    with pixel_literal_accepted(1) [of sign ds suf] n show False by simp
  qed
  have st: "starts_like_number ''12p''" "\<not> starts_like_number ''auto''"
    by (simp_all add: number_test_starts [symmetric] number_test_def is_digit_def)
  have m: "pixelLeft em_element ''12p'' = Fin 0"
    by (simp add: em_element_def)
  note t1 = toPixels_pixel_literal [of "''-''" "''12''" "''PX''" MSIE em_element "''12p''"]
  note t2 = toPixels_pixel_literal [of "''-''" "''12''" "''PX''" MSIE em_element "''auto''"]
  from t1 l v(2)
  have "toPixels MSIE em_element (Some (''-'' @ ''12'' @ ''PX'')) = Some (Fin (literal_value ''-'' ''12''))"
    by blast
  then have x: "toPixels MSIE em_element (Some ''-12PX'') = Some (Fin (- 12))"
    by (simp add: v(1))
  from t1 p have y: "toPixels Standard em_element (Some ''12p'') = None"
    by blast
  from t1 p st(1)
  have "toPixels MSIE em_element (Some ''12p'') = Some (pixelLeft em_element ''12p'')"
    by blast
  then have z: "toPixels MSIE em_element (Some ''12p'') = Some (Fin 0)"
    by (simp add: m)
  from t2 st(2) have w: "toPixels MSIE em_element (Some ''auto'') = None"
    by blast
  note hl = pixel_literal_zeros [of 309]
  have hd: "2 ^ 1024 \<le> denotes (CHR ''1'' # replicate 309 (CHR ''0''))"
    by (simp only: denotes_zeros ten_overflows)
  from toPixels_pixel_literal [of "[]" "CHR ''1'' # replicate 309 (CHR ''0'')" "''px''"
      Standard em_element "[]"] hl hd
  have "toPixels Standard em_element (Some ([] @ (CHR ''1'' # replicate 309 (CHR ''0'')) @ ''px''))
          = Some (if [] = ''-'' then NegInf else PosInf)"
    by blast
  then have ho: "toPixels Standard em_element (Some (CHR ''1'' # replicate 309 (CHR ''0'') @ ''px''))
          = Some PosInf"
    by simp
  from l v(2) x p y st z w hl hd ho show ?thesis
    by (simp only: simp_thms)
qed

text \<open>
  C4 as the specification states it fails on the replacement of \<^verbatim>\<open>toPixels\<close> that MSIE
  installs: \<^verbatim>\<open>1.5em\<close> is no pixel literal, and an element for which the engine measures it
  as 24 pixels gets 24, not \<^verbatim>\<open>null\<close>. It also fails on a long literal:
  \<^verbatim>\<open>9007199254740993px\<close> denotes \<open>2^53 + 1\<close>, which is no double, and is converted to \<open>2^53\<close>.
\<close>

theorem toPixels_measures:
  "\<not> is_pixel_literal ''1.5em'' \<and>
   toPixels MSIE em_element (Some ''1.5em'') = Some (Fin 24) \<and>
   pixel_literal [] ''9007199254740993'' ''px'' \<and>
   literal_value [] ''9007199254740993'' = 9007199254740993 \<and>
   toPixels Standard em_element (Some ''9007199254740993px'') = Some (Fin 9007199254740992)"
proof -
  have n: "\<not> pixel_test ''1.5em''"
    by (simp add: pixel_test_def is_digit_def)
  have p: "\<not> is_pixel_literal ''1.5em''"
  proof
    assume "is_pixel_literal ''1.5em''"
    then obtain sign ds suf where "''1.5em'' = sign @ ds @ suf" "pixel_literal sign ds suf"
      unfolding is_pixel_literal_def by blast
    with pixel_literal_accepted(1) [of sign ds suf] n show False by simp
  qed
  have m: "toPixels MSIE em_element (Some ''1.5em'') = Some (Fin 24)"
    using n by (simp add: toPixels_def toPixels_msie_def number_test_def is_digit_def
        em_element_def)
  have l: "pixel_literal [] ''9007199254740993'' ''px''"
    by (simp add: pixel_literal_def px_suffix_def is_digit_def)
  have dn: "denotes ''9007199254740993'' = 9007199254740993"
    by (simp add: denotes_decimal is_digit_def digit_value_def)
  then have v: "literal_value [] ''9007199254740993'' = 9007199254740993"
    by (simp add: literal_value_def)
  have "floorlog 2 9007199254740993 \<le> 54"
    by (simp add: floorlog_le_iff)
  moreover have "Suc 53 \<le> floorlog 2 9007199254740993"
    by (rule floorlog_ge_SucI) simp_all
  ultimately have fl: "floorlog 2 9007199254740993 = 54"
    by simp
  have td: "to_double 9007199254740993 = Fin 9007199254740992"
    by (simp add: to_double_def fl Let_def)
  from pixel_literal_accepted [OF l] dn td
  have r: "toPixels Standard em_element (Some ''9007199254740993px'') = Some (Fin 9007199254740992)"
    by (simp add: toPixels_def toPixels_standard_def literal_number_def)
  from p m l v r show ?thesis
    by (simp only: simp_thms)
qed

subsection \<open>Rounding\<close>

lemma truncate_of_int: "truncate (of_int k) = k"
  by (simp add: truncate_def)

lemma truncate_above: "y < of_int (truncate y) + 1"
proof (cases "0 \<le> y")
  case True
  then show ?thesis by (simp add: truncate_def)
next
  case False
  then show ?thesis by (simp add: truncate_def) linarith
qed

lemma next_multiple:
  fixes x b :: real
  assumes "0 < b"
  shows "x + b - (x - b * of_int (truncate (x / b))) = of_int (truncate (x / b) + 1) * b"
    and "x < x + b - (x - b * of_int (truncate (x / b)))"
proof -
  show "x + b - (x - b * of_int (truncate (x / b))) = of_int (truncate (x / b) + 1) * b"
    by (simp add: algebra_simps)
  from truncate_above [of "x / b"] assms have "x < (of_int (truncate (x / b)) + 1) * b"
    by (simp add: pos_divide_less_eq)
  then show "x < x + b - (x - b * of_int (truncate (x / b)))"
    by (simp add: algebra_simps)
qed

text \<open>
  For every number and base, \<^verbatim>\<open>roundUp\<close> is \<^verbatim>\<open>ceil(number) + base - (number % base)\<close>.
  When the number is an integer and the base is positive (and finite), the result is a
  multiple of the base, greater than the number; when the number is moreover a multiple of
  the base, the result is the number plus the base: \<^verbatim>\<open>roundUp(10, 10)\<close> is 20.
\<close>

theorem roundUp_integer:
  "roundUp number base = num_sub (num_add (num_ceil number) base) (num_mod number base) \<and>
   (0 < b \<longrightarrow>
      (\<exists>r. roundUp (Fin (of_int n)) (Fin b) = Fin r \<and> multiple_of r b \<and> of_int n < r \<and>
           (multiple_of (of_int n) b \<longrightarrow> r = of_int n + b))) \<and>
   roundUp (Fin 10) (Fin 10) = Fin 20"
proof -
  have "\<exists>r. roundUp (Fin (of_int n)) (Fin b) = Fin r \<and> multiple_of r b \<and> of_int n < r \<and>
           (multiple_of (of_int n) b \<longrightarrow> r = of_int n + b)" if b: "0 < b"
  proof -
    define r where "r = of_int n + b - (of_int n - b * of_int (truncate (of_int n / b)))"
    from b have "roundUp (Fin (of_int n)) (Fin b) = Fin r"
      by (simp add: roundUp_def num_sub_def r_def)
    moreover have "multiple_of r b"
      unfolding multiple_of_def r_def using next_multiple(1) [OF b] by blast
    moreover have "of_int n < r"
      unfolding r_def using next_multiple(2) [OF b] by blast
    moreover have "r = of_int n + b" if "multiple_of (of_int n) b"
    proof -
      from that obtain k :: int where k: "real_of_int n = of_int k * b"
        unfolding multiple_of_def by blast
      with b have "real_of_int n / b = of_int k" by simp
      then have "truncate (real_of_int n / b) = k" by (simp add: truncate_of_int)
      with k show ?thesis by (simp add: r_def algebra_simps)
    qed
    ultimately show ?thesis by blast
  qed
  moreover have "roundUp (Fin 10) (Fin 10) = Fin 20"
    by (simp add: roundUp_def num_sub_def truncate_def)
  ultimately show ?thesis by (simp add: roundUp_def)
qed

theorem roundUp_integer_witness:
  "(0::real) < 5 \<and> multiple_of 10 5 \<and> roundUp (Fin 10) (Fin 5) = Fin 15 \<and>
   multiple_of 15 5 \<and> (10::real) < 15"
proof -
  have m: "multiple_of 10 5"
    unfolding multiple_of_def by (rule exI [of _ 2]) simp
  with roundUp_integer [of NaN NaN 5 10] obtain r where
    "roundUp (Fin 10) (Fin 5) = Fin r" "multiple_of r 5" "10 < r" "r = 10 + 5"
    by auto
  with m show ?thesis by simp
qed

text \<open>
  C5. The result is a multiple of the base, and the number plus the base when the number
  is a multiple of the base already: so the specification says, and so does the comment of
  the function (\<^verbatim>\<open>@return {number} A multiple of the base number\<close>). The code fails both
  where the number is not an integer: \<^verbatim>\<open>roundUp(1.5, 1)\<close> is \<open>2 + 1 - 0.5 = 2.5\<close>, which is
  not a multiple of 1; and \<^verbatim>\<open>roundUp(1.5, 0.5)\<close>, where 1.5 is a multiple of the base, is
  \<open>2 + 0.5 - 0 = 2.5\<close> and not the number plus the base, 2.
\<close>

theorem roundUp_fraction:
  "roundUp (Fin (3 / 2)) (Fin 1) = Fin (5 / 2) \<and> \<not> multiple_of (5 / 2) 1 \<and>
   multiple_of (3 / 2) (1 / 2) \<and> roundUp (Fin (3 / 2)) (Fin (1 / 2)) = Fin (5 / 2) \<and>
   (3 / 2 + 1 / 2 :: real) \<noteq> 5 / 2"
proof -
  have a: "roundUp (Fin (3 / 2)) (Fin 1) = Fin (5 / 2)"
    "roundUp (Fin (3 / 2)) (Fin (1 / 2)) = Fin (5 / 2)"
    by (simp_all add: roundUp_def num_sub_def truncate_def)
  have "\<not> multiple_of (5 / 2) 1"
  proof
    assume "multiple_of (5 / 2) 1"
    then obtain k :: int where "(5 / 2 :: real) = of_int k"
      unfolding multiple_of_def by auto
    then have "real_of_int 5 = real_of_int (2 * k)" by simp
    then have "(5::int) = 2 * k" by (simp only: of_int_eq_iff)
    then show False by presburger
  qed
  moreover have "multiple_of (3 / 2) (1 / 2)"
    unfolding multiple_of_def by (rule exI [of _ 3]) simp
  ultimately show ?thesis using a by simp
qed

subsection \<open>Metrics\<close>



lemmas evaluate_toPixels =
  parses_to_def styled_def getStyleObject_def toPixels_def toPixels_standard_def pixel_test_def
  parseFloat_def is_digit_def digit_value_def to_double_def


lemma toPixels_standard_cases:
  "toPixels Standard el v = None \<or>
   (\<exists>y. toPixels Standard el v = Some y \<and> y \<noteq> NaN \<and>
        (\<not> starts_minus v \<longrightarrow> y = PosInf \<or> (\<exists>x. y = Fin x \<and> 0 \<le> x \<and> (x = 0 \<longrightarrow> y = Fin 0))))"
proof (cases "toPixels Standard el v")
  case None
  then show ?thesis by simp
next
  case (Some n)
  then obtain s where s: "v = Some s" "pixel_test s" "n = parseFloat s"
    by (auto simp: toPixels_def toPixels_standard_def split: option.splits if_splits)
  from pixel_test_literal [OF s(2)] obtain sign ds suf
    where d: "s = sign @ ds @ suf" "pixel_literal sign ds suf"
    unfolding is_pixel_literal_def by blast
  from pixel_literal_accepted(2) [OF d(2)] d(1) s(3)
  have n: "n = literal_number sign ds" by simp
  have nn: "n \<noteq> NaN"
    unfolding n literal_number_def by (simp add: to_double_not_NaN)
  have "n = PosInf \<or> (\<exists>x. n = Fin x \<and> 0 \<le> x \<and> (x = 0 \<longrightarrow> n = Fin 0))" if "\<not> starts_minus v"
  proof -
    from that s(1) d(1) have "sign \<noteq> ''-''"
      by (auto simp: starts_minus_def)
    then have "n = to_double (denotes ds)"
      unfolding n by (simp add: literal_number_def)
    with to_double_cases [of "denotes ds"] show ?thesis by auto
  qed
  with Some nn show ?thesis by simp
qed

lemma or_else_not_NaN: "d \<noteq> NaN \<Longrightarrow> or_else v d \<noteq> NaN"
  by (simp add: or_else_unset_as unset_as_not_NaN del: or_else.simps)

lemma or_else_Some: "or_else (Some y) (Fin 0) = (if y = NaN then Fin 0 else y)"
  by (cases y) auto

lemma side_pixels_or_else:
  assumes "map_of m f = Some (Num (or_else (toPixels host el v) (Fin 0)))"
  shows "side_pixels host el m f v"
proof -
  let ?n = "or_else (toPixels host el v) (Fin 0)"
  have 1: "?n \<noteq> NaN"
    by (rule or_else_not_NaN) simp
  have 2: "?n = Fin 0" if "toPixels host el v = None"
    using that by simp
  have 3: "?n = (if y = NaN then Fin 0 else y)" if "toPixels host el v = Some y" for y
    using that by (simp only: or_else_Some)
  have 4: "num_le (Fin 0) ?n" if "host = Standard \<and> \<not> starts_minus v"
  proof -
    from that toPixels_standard_cases [of el v]
    consider "toPixels host el v = None"
      | y where "toPixels host el v = Some y" "y = PosInf \<or> (\<exists>x. y = Fin x \<and> 0 \<le> x)"
      by (elim disjE exE conjE) auto
    then show ?thesis
    proof cases
      case 1
      then show ?thesis by simp
    next
      case 2
      then show ?thesis by (elim disjE exE conjE) (simp_all add: or_else_Some)
    qed
  qed
  show ?thesis
    unfolding side_pixels_def
    by (rule exI [of _ ?n]) (intro conjI impI allI; (rule assms 1 | erule 2 3 4))
qed

lemma Metrics_sides:
  "map_of (Metrics host (Some el)) ''marginTop''
     = Some (Num (or_else (toPixels host el (getStyleObject host el ''marginTop'')) (Fin 0)))"
  "map_of (Metrics host (Some el)) ''marginBottom''
     = Some (Num (or_else (toPixels host el (getStyleObject host el ''marginBottom'')) (Fin 0)))"
  "map_of (Metrics host (Some el)) ''marginLeft''
     = Some (Num (or_else (toPixels host el (getStyleObject host el ''marginLeft'')) (Fin 0)))"
  "map_of (Metrics host (Some el)) ''marginRight''
     = Some (Num (or_else (toPixels host el (getStyleObject host el ''marginRight'')) (Fin 0)))"
  "map_of (Metrics host (Some el)) ''borderTop''
     = Some (Num (or_else (toPixels host el (getStyleObject host el ''borderTopWidth'')) (Fin 0)))"
  "map_of (Metrics host (Some el)) ''borderBottom''
     = Some (Num (or_else (toPixels host el (getStyleObject host el ''borderBottomWidth'')) (Fin 0)))"
  "map_of (Metrics host (Some el)) ''borderLeft''
     = Some (Num (or_else (toPixels host el (getStyleObject host el ''borderLeftWidth'')) (Fin 0)))"
  "map_of (Metrics host (Some el)) ''borderRight''
     = Some (Num (or_else (toPixels host el (getStyleObject host el ''borderRightWidth'')) (Fin 0)))"
  "map_of (Metrics host (Some el)) ''paddingTop''
     = Some (Num (or_else (toPixels host el (getStyleObject host el ''paddingTop'')) (Fin 0)))"
  "map_of (Metrics host (Some el)) ''paddingBottom''
     = Some (Num (or_else (toPixels host el (getStyleObject host el ''paddingBottom'')) (Fin 0)))"
  "map_of (Metrics host (Some el)) ''paddingLeft''
     = Some (Num (or_else (toPixels host el (getStyleObject host el ''paddingLeft'')) (Fin 0)))"
  "map_of (Metrics host (Some el)) ''paddingRight''
     = Some (Num (or_else (toPixels host el (getStyleObject host el ''paddingRight'')) (Fin 0)))"
  by (simp_all add: Metrics_def Let_def del: or_else.simps)


text \<open>
  C7, as the code has it. Each of the twelve per-side margin, border and padding fields of
  a snapshot is a number other than NaN: the number \<^verbatim>\<open>toPixels\<close> reads from the
  corresponding style string, and 0 when it reads none. With the standard \<^verbatim>\<open>toPixels\<close> the
  field is not negative unless the string starts with a minus sign.
\<close>

theorem Metrics_side_fields:
  "list_all
     (\<lambda>(f, k). side_pixels host el (Metrics host (Some el)) f (getStyleObject host el k))
     side_fields"
  unfolding side_fields_def
  by (simp add: side_pixels_or_else Metrics_sides del: or_else.simps)

theorem Metrics_side_fields_witness:
  "\<not> starts_minus (getStyleObject Standard example_element ''marginTop'') \<and>
   toPixels Standard example_element (getStyleObject Standard example_element ''marginTop'')
     = Some (Fin 10) \<and>
   map_of (Metrics Standard (Some example_element)) ''marginTop'' = Some (Num (Fin 10)) \<and>
   toPixels Standard bare_element (getStyleObject Standard bare_element ''marginTop'') = None \<and>
   map_of (Metrics Standard (Some bare_element)) ''marginTop'' = Some (Num (Fin 0)) \<and>
   toPixels MSIE em_element (getStyleObject MSIE em_element ''marginTop'') = Some (Fin 24) \<and>
   map_of (Metrics MSIE (Some em_element)) ''marginTop'' = Some (Num (Fin 24))"
proof -
  have a: "\<not> starts_minus (getStyleObject Standard example_element ''marginTop'')"
    "toPixels Standard example_element (getStyleObject Standard example_element ''marginTop'')
       = Some (Fin 10)"
    "toPixels Standard bare_element (getStyleObject Standard bare_element ''marginTop'') = None"
    by (simp_all add: starts_minus_def evaluate_toPixels example_element_def example_style_def
        bare_element_def)
  have e: "toPixels MSIE em_element (getStyleObject MSIE em_element ''marginTop'') = Some (Fin 24)"
    by (simp add: getStyleObject_def toPixels_def toPixels_msie_def em_element_def pixel_test_def
        number_test_def is_digit_def)
  from Metrics_side_fields [of Standard example_element]
  have "side_pixels Standard example_element (Metrics Standard (Some example_element)) ''marginTop''
          (getStyleObject Standard example_element ''marginTop'')"
    by (simp add: side_fields_def)
  with a have b: "map_of (Metrics Standard (Some example_element)) ''marginTop'' = Some (Num (Fin 10))"
    by (auto simp: side_pixels_def)
  from Metrics_side_fields [of Standard bare_element]
  have "side_pixels Standard bare_element (Metrics Standard (Some bare_element)) ''marginTop''
          (getStyleObject Standard bare_element ''marginTop'')"
    by (simp add: side_fields_def)
  with a have c: "map_of (Metrics Standard (Some bare_element)) ''marginTop'' = Some (Num (Fin 0))"
    by (auto simp: side_pixels_def)
  from Metrics_side_fields [of MSIE em_element]
  have "side_pixels MSIE em_element (Metrics MSIE (Some em_element)) ''marginTop''
          (getStyleObject MSIE em_element ''marginTop'')"
    by (simp add: side_fields_def)
  with e have d: "map_of (Metrics MSIE (Some em_element)) ''marginTop'' = Some (Num (Fin 24))"
    by (auto simp: side_pixels_def)
  from a b c d e show ?thesis by (simp only: simp_thms)
qed

text \<open>
  C7 as the specification states it fails on a negative pixel literal: with the computed
  top margin \<^verbatim>\<open>-5px\<close> the field \<^verbatim>\<open>marginTop\<close> of the snapshot is \<open>-5\<close>.
\<close>

theorem Metrics_negative_margin:
  "getStyleObject Standard negative_element ''marginTop'' = Some ''-5px'' \<and>
   map_of (Metrics Standard (Some negative_element)) ''marginTop'' = Some (Num (Fin (- 5)))"
  by (simp add: Metrics_sides negative_element_def evaluate_toPixels)






lemma num_fields_None: "map_of ps k = None \<Longrightarrow> map_of (num_fields ps) k = None"
  by (induction ps rule: num_fields.induct) (auto split: if_splits)

lemma num_fields_Num: "map_of ps k = Some (Num n) \<Longrightarrow> map_of (num_fields ps) k = Some n"
  by (induction ps rule: num_fields.induct) (auto split: if_splits)

lemma Metrics_no_outerWidth:
  "map_of (Metrics host el0) ''outerWidth'' = None"
  "map_of (Metrics host el0) ''outerHeight'' = None"
  by (cases el0; simp add: Metrics_def Let_def)+

lemma Metrics_outer:
  "map_of (Metrics host (Some el)) ''outerW'' = Some (Num (offsetWidth el))"
  "map_of (Metrics host (Some el)) ''outerH'' = Some (Num (offsetHeight el))"
  by (simp_all add: Metrics_def Let_def)

text \<open>
  C9. A snapshot, constructed from an element or empty, has the properties \<^verbatim>\<open>outerW\<close> and
  \<^verbatim>\<open>outerH\<close> when it is constructed from an element and never \<^verbatim>\<open>outerWidth\<close> or
  \<^verbatim>\<open>outerHeight\<close>, which the fallback of \<^verbatim>\<open>mergeSizeRange\<close> reads. So with \<^verbatim>\<open>outer = true\<close>
  the footprint of a snapshot is its \<^verbatim>\<open>bpWidth\<close> (\<^verbatim>\<open>bpHeight\<close>) or 0, never outer minus
  inner: when \<^verbatim>\<open>bpWidth\<close> (\<^verbatim>\<open>bpHeight\<close>) is absent or 0 the footprint is 0, and when both
  are, merging with \<^verbatim>\<open>outer = true\<close> is merging with \<^verbatim>\<open>outer = false\<close>.
\<close>

theorem Metrics_outer_footprint:
  "map_of (Metrics host el0) ''outerWidth'' = None \<and>
   map_of (Metrics host el0) ''outerHeight'' = None \<and>
   map_of (Metrics host (Some el)) ''outerW'' = Some (Num (offsetWidth el)) \<and>
   map_of (Metrics host (Some el)) ''outerH'' = Some (Num (offsetHeight el)) \<and>
   merge_bpWidth (num_fields (Metrics host el0)) True
     = unset_as (Fin 0) (map_of (num_fields (Metrics host el0)) ''bpWidth'') \<and>
   merge_bpHeight (num_fields (Metrics host el0)) True
     = unset_as (Fin 0) (map_of (num_fields (Metrics host el0)) ''bpHeight'') \<and>
   (unset_or_zero (map_of (num_fields (Metrics host el0)) ''bpWidth'')
      \<longrightarrow> merge_bpWidth (num_fields (Metrics host el0)) True = Fin 0) \<and>
   (unset_or_zero (map_of (num_fields (Metrics host el0)) ''bpHeight'')
      \<longrightarrow> merge_bpHeight (num_fields (Metrics host el0)) True = Fin 0) \<and>
   (unset_or_zero (map_of (num_fields (Metrics host el0)) ''bpWidth'') \<and>
    unset_or_zero (map_of (num_fields (Metrics host el0)) ''bpHeight'')
      \<longrightarrow> mergeSizeRange a (Some (num_fields (Metrics host el0))) True
          = mergeSizeRange a (Some (num_fields (Metrics host el0))) False)"
proof -
  define b where "b = num_fields (Metrics host el0)"
  have no: "map_of b ''outerWidth'' = None" "map_of b ''outerHeight'' = None"
    unfolding b_def by (simp_all add: num_fields_None Metrics_no_outerWidth)
  have w: "merge_bpWidth b True = unset_as (Fin 0) (map_of b ''bpWidth'')"
    and h: "merge_bpHeight b True = unset_as (Fin 0) (map_of b ''bpHeight'')"
    by (simp_all add: merge_bpWidth_def merge_bpHeight_def no or_else_unset_as
        del: or_else.simps)
  have w0: "merge_bpWidth b True = Fin 0" if "unset_or_zero (map_of b ''bpWidth'')"
    using that unfolding w unset_or_zero_def by (elim disjE) simp_all
  have h0: "merge_bpHeight b True = Fin 0" if "unset_or_zero (map_of b ''bpHeight'')"
    using that unfolding h unset_or_zero_def by (elim disjE) simp_all
  have m: "mergeSizeRange a (Some b) True = mergeSizeRange a (Some b) False"
    if "unset_or_zero (map_of b ''bpWidth'') \<and> unset_or_zero (map_of b ''bpHeight'')"
    using that by (simp add: mergeSizeRange_def merge_off w0 h0 del: or_else.simps)
  show ?thesis
    unfolding b_def [symmetric]
    by (intro conjI impI;
        (rule Metrics_no_outerWidth Metrics_outer w h | erule w0 h0 m))
qed

theorem Metrics_outer_footprint_witness:
  "unset_or_zero (map_of (num_fields (Metrics Standard (Some bare_element))) ''bpWidth'') \<and>
   unset_or_zero (map_of (num_fields (Metrics Standard (Some bare_element))) ''bpHeight'') \<and>
   merge_bpWidth (num_fields (Metrics Standard (Some bare_element))) True = Fin 0 \<and>
   merge_bpHeight (num_fields (Metrics Standard (Some bare_element))) True = Fin 0 \<and>
   mergeSizeRange None (Some (num_fields (Metrics Standard (Some bare_element)))) True
     = mergeSizeRange None (Some (num_fields (Metrics Standard (Some bare_element)))) False"
proof -
  have "map_of (Metrics Standard (Some bare_element)) ''bpWidth'' = Some (Num (Fin 0))"
    "map_of (Metrics Standard (Some bare_element)) ''bpHeight'' = Some (Num (Fin 0))"
    by (simp_all add: Metrics_def Let_def getStyleObject_def bare_element_def styled_def
        toPixels_def toPixels_standard_def)
  then have u:
    "unset_or_zero (map_of (num_fields (Metrics Standard (Some bare_element))) ''bpWidth'')"
    "unset_or_zero (map_of (num_fields (Metrics Standard (Some bare_element))) ''bpHeight'')"
    by (simp_all add: num_fields_Num unset_or_zero_def)
  with Metrics_outer_footprint [of Standard "Some bare_element" bare_element None] show ?thesis
    by blast
qed

subsection \<open>Copying\<close>

lemma get_prop_update:
  "get_prop P (AList.update key v ob) k = (if k = key then v else get_prop P ob k)"
  by (simp add: get_prop_def update_conv')

lemma set_prop_nth:
  "length (set_prop h a k v) = length h"
  "b \<noteq> a \<Longrightarrow> set_prop h a k v ! b = h ! b"
  "a < length h \<Longrightarrow> set_prop h a k v ! a = AList.update k v (h ! a)"
  by (simp_all add: set_prop_def)

lemma clone_loop_frame:
  "length (clone_loop P h this copy keys) = length h"
  "a \<noteq> copy \<Longrightarrow> clone_loop P h this copy keys ! a = h ! a"
  by (induction keys arbitrary: h) (simp_all add: set_prop_nth)

lemma strict_neq_False: "\<not> strict_neq x y \<Longrightarrow> x = y"
  by (simp add: strict_neq_def)

lemma clone_loop_keeps_read:
  assumes "this \<noteq> copy" "copy < length h"
    and "get_prop P (h ! copy) k = get_prop P (h ! this) k"
  shows "get_prop P (clone_loop P h this copy keys ! copy) k = get_prop P (h ! this) k"
  using assms
proof (induction keys arbitrary: h)
  case Nil
  then show ?case by simp
next
  case (Cons key keys)
  let ?h = "if strict_neq (get_prop P (h ! copy) key) (get_prop P (h ! this) key)
            then set_prop h copy key (get_prop P (h ! this) key) else h"
  have t: "?h ! this = h ! this"
    using Cons.prems(1) by (simp add: set_prop_nth)
  have l: "copy < length ?h"
    using Cons.prems(2) by (simp add: set_prop_nth)
  have "get_prop P (?h ! copy) k = get_prop P (h ! this) k"
    using Cons.prems by (simp add: set_prop_nth get_prop_update)
  with Cons.IH [of ?h] Cons.prems(1) l t show ?case
    by simp
qed

lemma clone_loop_reads:
  assumes "this \<noteq> copy" "copy < length h" "k \<in> set keys"
  shows "get_prop P (clone_loop P h this copy keys ! copy) k = get_prop P (h ! this) k"
  using assms
proof (induction keys arbitrary: h)
  case Nil
  then show ?case by simp
next
  case (Cons key keys)
  let ?h = "if strict_neq (get_prop P (h ! copy) key) (get_prop P (h ! this) key)
            then set_prop h copy key (get_prop P (h ! this) key) else h"
  have t: "?h ! this = h ! this"
    using Cons.prems(1) by (simp add: set_prop_nth)
  have l: "copy < length ?h"
    using Cons.prems(2) by (simp add: set_prop_nth)
  show ?case
  proof (cases "k = key")
    case True
    have "get_prop P (?h ! copy) k = get_prop P (h ! this) k"
      using True Cons.prems(2) strict_neq_False [of "get_prop P (h ! copy) key"]
      by (auto simp: set_prop_nth get_prop_update)
    with clone_loop_keeps_read [of this copy ?h P k keys] Cons.prems(1) l t show ?thesis
      by simp
  next
    case False
    with Cons.prems(3) have "k \<in> set keys" by simp
    with Cons.IH [of ?h] Cons.prems(1) l t show ?thesis
      by simp
  qed
qed

lemma clone_loop_own:
  assumes "this \<noteq> copy" "copy < length h"
    and "map_of (h ! copy) k = None \<or>
         (map_of (h ! copy) k = Some (get_prop P (h ! this) k) \<and>
          strict_neq (proto_get P k) (get_prop P (h ! this) k))"
  shows "map_of (clone_loop P h this copy keys ! copy) k
           = (if k \<in> set keys \<and> strict_neq (proto_get P k) (get_prop P (h ! this) k)
              then Some (get_prop P (h ! this) k) else map_of (h ! copy) k)"
  using assms
proof (induction keys arbitrary: h)
  case Nil
  then show ?case by simp
next
  case (Cons key keys)
  let ?h = "if strict_neq (get_prop P (h ! copy) key) (get_prop P (h ! this) key)
            then set_prop h copy key (get_prop P (h ! this) key) else h"
  let ?v = "get_prop P (h ! this) k"
  have t: "?h ! this = h ! this"
    using Cons.prems(1) by (simp add: set_prop_nth)
  have l: "copy < length ?h"
    using Cons.prems(2) by (simp add: set_prop_nth)
  have m: "map_of (?h ! copy) k
             = (if k = key \<and> strict_neq (proto_get P k) ?v then Some ?v else map_of (h ! copy) k)"
    using Cons.prems(2,3)
    by (auto simp: set_prop_nth update_conv' get_prop_def strict_neq_def split: option.splits)
  with Cons.prems(3)
  have "map_of (?h ! copy) k = None \<or>
        (map_of (?h ! copy) k = Some ?v \<and> strict_neq (proto_get P k) ?v)"
    by (auto split: if_splits)
  with Cons.IH [of ?h] Cons.prems(1) l t
  have "map_of (clone_loop P ?h this copy keys ! copy) k
          = (if k \<in> set keys \<and> strict_neq (proto_get P k) ?v then Some ?v
             else map_of (?h ! copy) k)"
    by simp
  with m show ?case
    by auto
qed

lemma clone_unfold:
  "clone host P h this
     = (length h, clone_loop P (h @ [[]]) this (length h) (for_in_keys P ((h @ [[]]) ! this)))"
  by (simp add: clone_def new_Metrics_def Metrics_def)

lemma own_key_visited: "map_of ob k = Some v \<Longrightarrow> k \<in> set (for_in_keys P ob)"
  by (auto simp: for_in_keys_def dest: map_of_SomeD intro: rev_image_eqI)


lemma visited_keys:
  "k \<in> set (for_in_keys P ob)
     = (map_of ob k \<noteq> None \<or> (map_of ob k = None \<and> enumerable P k))"
proof -
  have "enumerable P k \<Longrightarrow> k \<in> fst ` set P"
    by (auto simp: enumerable_def split: option.splits dest: map_of_SomeD intro: rev_image_eqI)
  then show ?thesis
    by (auto simp: for_in_keys_def map_of_eq_None_iff)
qed

text \<open>
  C8, as the code has it. For a \<^verbatim>\<open>Metrics\<close> object at a live address, however it was built
  and extended, \<^verbatim>\<open>clone()\<close> returns a new object and leaves every object of the heap as it
  was. Every own property of the source reads with the same value on the copy. It is an
  own property of the copy exactly when its value differs (\<^verbatim>\<open>!==\<close>) from what an empty
  \<^verbatim>\<open>Metrics\<close> yields for its key through the prototype chain (\<^verbatim>\<open>undefined\<close> for a key the
  chain does not define); otherwise it is not copied. The copy has no other own property,
  apart from an enumerable inherited property that holds NaN. Assigning to a property of
  the copy afterwards leaves the source unchanged.
\<close>

theorem clone_copy:
  assumes "this < length h"
  shows "fst (clone host P h this) = length h \<and>
         length (snd (clone host P h this)) = Suc (length h) \<and>
         (\<forall>a. a < length h \<longrightarrow> snd (clone host P h this) ! a = h ! a) \<and>
         (\<forall>k v. map_of (h ! this) k = Some v \<longrightarrow>
            get_prop P (snd (clone host P h this) ! fst (clone host P h this)) k = v) \<and>
         (\<forall>k v. map_of (h ! this) k = Some v \<longrightarrow>
            map_of (snd (clone host P h this) ! fst (clone host P h this)) k
              = (if strict_neq (proto_get P k) v then Some v else None)) \<and>
         (\<forall>k. map_of (h ! this) k = None \<longrightarrow>
            map_of (snd (clone host P h this) ! fst (clone host P h this)) k
              = (if enumerable P k \<and> proto_get P k = Num NaN then Some (Num NaN) else None)) \<and>
         (\<forall>k v. set_prop (snd (clone host P h this)) (fst (clone host P h this)) k v ! this
            = h ! this)"
proof -
  let ?h1 = "h @ [[]]"
  let ?keys = "for_in_keys P (?h1 ! this)"
  let ?h2 = "clone_loop P ?h1 this (length h) ?keys"
  have c: "clone host P h this = (length h, ?h2)"
    by (rule clone_unfold)
  from assms have ne: "this \<noteq> length h" and lt: "length h < length ?h1"
    and src: "?h1 ! this = h ! this" and cp: "?h1 ! length h = []"
    by (simp_all add: nth_append)
  have frame: "?h2 ! a = h ! a" if "a < length h" for a
    using that clone_loop_frame(2) [of a "length h" P ?h1 this ?keys]
    by (simp add: nth_append)
  have reads: "get_prop P (?h2 ! length h) k = v" if "map_of (h ! this) k = Some v" for k v
  proof -
    from that src have "k \<in> set ?keys"
      by (simp add: own_key_visited)
    from clone_loop_reads [OF ne lt this, of P] that src show ?thesis
      by (simp add: get_prop_def)
  qed
  have exact: "map_of (?h2 ! length h) k
      = (if k \<in> set ?keys \<and> strict_neq (proto_get P k) (get_prop P (h ! this) k)
         then Some (get_prop P (h ! this) k) else None)" for k
    using clone_loop_own [OF ne lt, of k P ?keys] cp src by simp
  have owns: "map_of (?h2 ! length h) k = (if strict_neq (proto_get P k) v then Some v else None)"
    if "map_of (h ! this) k = Some v" for k v
    using that src unfolding exact by (simp add: visited_keys get_prop_def)
  have others: "map_of (?h2 ! length h) k
      = (if enumerable P k \<and> proto_get P k = Num NaN then Some (Num NaN) else None)"
    if "map_of (h ! this) k = None" for k
    using that src unfolding exact by (auto simp: visited_keys get_prop_def strict_neq_def)
  have indep: "set_prop ?h2 (length h) k v ! this = h ! this" for k v
    using ne frame [OF assms] by (simp add: set_prop_nth)
  show ?thesis
    unfolding c fst_conv snd_conv
    by (intro conjI allI impI) (simp_all add: clone_loop_frame(1) frame reads owns others indep)
qed

theorem clone_copy_witness:
  "1 < length example_heap \<and>
   map_of (example_heap ! 1) ''width'' = Some (Num (Fin 90)) \<and>
   strict_neq (proto_get example_proto ''width'') (Num (Fin 90)) \<and>
   fst (clone Standard example_proto example_heap 1) = 2 \<and>
   map_of (snd (clone Standard example_proto example_heap 1) ! 2) ''width''
     = Some (Num (Fin 90)) \<and>
   map_of (example_heap ! 1) ''note'' = Some Undefined \<and>
   \<not> strict_neq (proto_get example_proto ''note'') Undefined \<and>
   map_of (snd (clone Standard example_proto example_heap 1) ! 2) ''note'' = None \<and>
   get_prop example_proto (snd (clone Standard example_proto example_heap 1) ! 2) ''note''
     = Undefined \<and>
   map_of (example_heap ! 1) ''clone'' = None \<and>
   map_of (snd (clone Standard example_proto example_heap 1) ! 2) ''clone'' = None \<and>
   set_prop (snd (clone Standard example_proto example_heap 1)) 2 ''width'' (Num (Fin 0)) ! 1
     = example_heap ! 1"
proof -
  have h: "example_heap = [[], [(''width'', Num (Fin 90)), (''note'', Undefined)]]"
    by (simp add: example_heap_def new_Metrics_def Metrics_def set_prop_def)
  have a: "1 < length example_heap"
    "map_of (example_heap ! 1) ''width'' = Some (Num (Fin 90))"
    "map_of (example_heap ! 1) ''note'' = Some Undefined"
    "strict_neq (proto_get example_proto ''width'') (Num (Fin 90))"
    "\<not> strict_neq (proto_get example_proto ''note'') Undefined"
    "map_of (example_heap ! 1) ''clone'' = None"
    "\<not> (enumerable example_proto ''clone'' \<and> proto_get example_proto ''clone'' = Num NaN)"
    by (simp_all add: h strict_neq_def proto_get_def example_proto_def)
  have l: "length example_heap = 2"
    by (simp add: h)
  note c = clone_copy [OF a(1), of Standard example_proto]
  from c l have f: "fst (clone Standard example_proto example_heap 1) = 2"
    by simp
  from c a(2)
  have "map_of (snd (clone Standard example_proto example_heap 1) !
             fst (clone Standard example_proto example_heap 1)) ''width''
          = (if strict_neq (proto_get example_proto ''width'') (Num (Fin 90))
             then Some (Num (Fin 90)) else None)"
    by blast
  with a(4)
  have w: "map_of (snd (clone Standard example_proto example_heap 1) !
             fst (clone Standard example_proto example_heap 1)) ''width'' = Some (Num (Fin 90))"
    by (simp only: if_True)
  from c a(3)
  have "map_of (snd (clone Standard example_proto example_heap 1) !
             fst (clone Standard example_proto example_heap 1)) ''note''
          = (if strict_neq (proto_get example_proto ''note'') Undefined
             then Some Undefined else None)"
    by blast
  with a(5)
  have o: "map_of (snd (clone Standard example_proto example_heap 1) !
             fst (clone Standard example_proto example_heap 1)) ''note'' = None"
    by (simp only: if_False)
  from c a(3)
  have n: "get_prop example_proto (snd (clone Standard example_proto example_heap 1) !
             fst (clone Standard example_proto example_heap 1)) ''note'' = Undefined"
    by blast
  from c a(6)
  have "map_of (snd (clone Standard example_proto example_heap 1) !
             fst (clone Standard example_proto example_heap 1)) ''clone''
          = (if enumerable example_proto ''clone'' \<and> proto_get example_proto ''clone'' = Num NaN
             then Some (Num NaN) else None)"
    by blast
  with a(7)
  have p: "map_of (snd (clone Standard example_proto example_heap 1) !
             fst (clone Standard example_proto example_heap 1)) ''clone'' = None"
    by (simp only: if_False)
  from c
  have i: "set_prop (snd (clone Standard example_proto example_heap 1))
             (fst (clone Standard example_proto example_heap 1)) ''width'' (Num (Fin 0)) ! 1
           = example_heap ! 1"
    by blast
  from a f w o n p i show ?thesis
    by (simp only: simp_thms)
qed

text \<open>
  C8 as the specification states it fails on an own property that holds \<^verbatim>\<open>undefined\<close>:
  the object built by \<^verbatim>\<open>m = new Metrics(); m.width = 90; m.note = undefined\<close> has the own
  property \<^verbatim>\<open>note\<close>, and its clone has the own property \<^verbatim>\<open>width\<close> only, since
  \<^verbatim>\<open>copy[key] !== this[key]\<close> is false for \<^verbatim>\<open>note\<close>.
\<close>

theorem clone_skips_undefined:
  "example_heap ! 1 = [(''width'', Num (Fin 90)), (''note'', Undefined)] \<and>
   clone Standard example_proto example_heap 1
     = (2, [[], [(''width'', Num (Fin 90)), (''note'', Undefined)], [(''width'', Num (Fin 90))]]) \<and>
   map_of (example_heap ! 1) ''note'' = Some Undefined \<and>
   map_of (snd (clone Standard example_proto example_heap 1) !
           fst (clone Standard example_proto example_heap 1)) ''note'' = None"
proof -
  have h: "example_heap = [[], [(''width'', Num (Fin 90)), (''note'', Undefined)]]"
    by (simp add: example_heap_def new_Metrics_def Metrics_def set_prop_def)
  have k: "for_in_keys [(''clone'', Ref 0, True)] [(''width'', Num (Fin 90)), (''note'', Undefined)]
             = [''width'', ''note'', ''clone'']"
    by (simp add: for_in_keys_def enumerable_def)
  have c: "clone Standard example_proto example_heap 1
     = (2, [[], [(''width'', Num (Fin 90)), (''note'', Undefined)], [(''width'', Num (Fin 90))]])"
    unfolding h clone_unfold
    by (simp add: k get_prop_def proto_get_def example_proto_def strict_neq_def set_prop_def)
  show ?thesis
    unfolding c by (simp add: h)
qed

end
